theory Spec2Isabelle
  imports Main "HOL-Library.Sublist"
begin

section \<open>The browser client \<open>static/js/app.js\<close>\<close>

text \<open>
  The script is a set of event handlers over six module-level variables and the page's
  DOM. The embedding passes the state explicitly: a record of the six variables and of
  the part of the DOM the script reads or writes.

  Conventions of the embedding.
  \<^item> A JavaScript string is the list of its code units, kept below 256. Pictographs
    outside that range occur only in markup that the script assigns to \<open>innerHTML\<close>;
    there they are written as numeric character references (\<open>&#x23F3;\<close>), which the
    browser parses to the same character.
  \<^item> Numbers are integers (\<open>int\<close>); \<open>NaN\<close> is \<open>None\<close>.
  \<^item> \<open>null\<close> and \<open>undefined\<close> are \<open>None\<close>.
  \<^item> The page's markup is not part of the script. Every id the script passes to
    \<open>getElementById\<close> is taken to name an element of the page, so that lookup is a
    total function \<open>byId\<close>; elements without an id are the list \<open>others\<close>.
  \<^item> An \<open>async\<close> handler runs to its first \<open>await\<close>, lets other handlers run, and
    resumes when the reply is there. It is embedded as two functions: \<open>h_begin\<close>, up to
    the call of \<open>fetch\<close>, which returns the request that is now in flight together with
    the handler's captured locals, and \<open>h_finish\<close>, from the reply on, which runs on the
    state as it is at that later moment. Between \<open>await fetch(...)\<close> and
    \<open>await response.json()\<close> no handler reads or writes the state, so both are one
    resumption.
  \<^item> \<open>Date.now()\<close> is an argument of the functions that call it.
  \<^item> Scrolling (\<open>scrollTop\<close>, \<open>scrollIntoView\<close>) is layout and is left out.
\<close>

subsection \<open>Strings\<close>

text \<open>White space among the code units below 256: TAB, LF, VT, FF, CR, SP and NBSP.\<close>

definition is_space :: "char \<Rightarrow> bool" where
  "is_space c = (c \<in> {CHR 0x09, CHR 0x0A, CHR 0x0B, CHR 0x0C, CHR 0x0D, CHR 0x20, CHR 0xA0})"

text \<open>The single quote and the backslash, which a string literal of HOL cannot hold
  everywhere.\<close>

definition sq :: string where
  "sq = [CHR 0x27]"

definition bs :: string where
  "bs = [CHR 0x5C]"

text \<open>\<open>String.prototype.trim\<close>: white space is removed at both ends.\<close>

definition trim :: "string \<Rightarrow> string" where
  "trim s = rev (dropWhile is_space (rev (dropWhile is_space s)))"

text \<open>\<open>s.split(c)\<close> for a one-character separator; the empty string splits to \<open>['']\<close>.\<close>

fun split_on :: "char \<Rightarrow> string \<Rightarrow> string list" where
  "split_on c [] = [[]]"
| "split_on c (x # xs) =
     (if x = c then [] # split_on c xs
      else (case split_on c xs of [] \<Rightarrow> [[x]] | w # ws \<Rightarrow> (x # w) # ws))"

text \<open>\<open>xs.join(sep)\<close>.\<close>

fun join :: "string \<Rightarrow> string list \<Rightarrow> string" where
  "join sep [] = []"
| "join sep [x] = x"
| "join sep (x # y # ys) = x @ sep @ join sep (y # ys)"

text \<open>\<open>s.replace(/pat/g, by)\<close> for a literal, non-empty pattern: every occurrence, left to right.\<close>

fun replace_all :: "string \<Rightarrow> string \<Rightarrow> string \<Rightarrow> string" where
  "replace_all pat by [] = []"
| "replace_all pat by (x # xs) =
     (if pat \<noteq> [] \<and> prefix pat (x # xs)
      then by @ replace_all pat by (drop (length pat) (x # xs))
      else x # replace_all pat by xs)"

text \<open>Decimal notation of a number, as string concatenation and template literals produce it.\<close>

fun dec :: "nat \<Rightarrow> string" where
  "dec n = (if n < 10 then [char_of (48 + n)] else dec (n div 10) @ [char_of (48 + n mod 10)])"

declare dec.simps [simp del]

definition num :: "int \<Rightarrow> string" where
  "num i = (if i < 0 then CHR ''-'' # dec (nat (- i)) else dec (nat i))"

text \<open>Truthiness of a possibly absent string, and \<open>a || b\<close> on strings.\<close>

definition truthy :: "string option \<Rightarrow> bool" where
  "truthy v = (case v of None \<Rightarrow> False | Some s \<Rightarrow> s \<noteq> [])"

definition or_else :: "string option \<Rightarrow> string \<Rightarrow> string" where
  "or_else v d = (case v of None \<Rightarrow> d | Some s \<Rightarrow> if s \<noteq> [] then s else d)"

text \<open>A possibly absent string where a string is expected: \<open>undefined\<close> prints as such.\<close>

definition str :: "string option \<Rightarrow> string" where
  "str v = (case v of None \<Rightarrow> ''undefined'' | Some s \<Rightarrow> s)"

text \<open>\<open>parseInt(s)\<close>: leading white space, a sign, \<open>0x\<close> for radix 16, then the longest run of
  digits; \<open>NaN\<close> when there is none.\<close>

definition digit_of :: "nat \<Rightarrow> char \<Rightarrow> nat option" where
  "digit_of radix c =
     (let n = (of_char c :: nat);
          v = (if 48 \<le> n \<and> n \<le> 57 then Some (n - 48)
               else if 97 \<le> n \<and> n \<le> 122 then Some (n - 87)
               else if 65 \<le> n \<and> n \<le> 90 then Some (n - 55)
               else None)
      in case v of None \<Rightarrow> None | Some d \<Rightarrow> if d < radix then Some d else None)"

fun digits_of :: "nat \<Rightarrow> string \<Rightarrow> nat list" where
  "digits_of radix [] = []"
| "digits_of radix (c # cs) =
     (case digit_of radix c of None \<Rightarrow> [] | Some d \<Rightarrow> d # digits_of radix cs)"

definition parseInt :: "string \<Rightarrow> int option" where
  "parseInt s =
     (let t = dropWhile is_space s;
          neg = (take 1 t = ''-'');
          t1 = (if take 1 t = ''-'' \<or> take 1 t = ''+'' then drop 1 t else t);
          hex = (take 2 t1 = ''0x'' \<or> take 2 t1 = ''0X'');
          radix = (if hex then 16 else 10);
          ds = digits_of radix (if hex then drop 2 t1 else t1);
          n = int (foldl (\<lambda>a d. a * radix + d) 0 ds)
      in if ds = [] then None else Some (if neg then - n else n))"

subsection \<open>The page\<close>

text \<open>What an element shows: set through \<open>textContent\<close> or through \<open>innerHTML\<close>.\<close>

datatype content = Text string | Html string

text \<open>An element that the script reaches by id or by selector. \<open>options\<close> lists, for a
  \<open>select\<close>, the value of each option and whether it is selected.\<close>

record element =
  tag :: string
  etype :: string
  ename :: string
  val :: string
  checked :: bool
  disabled :: bool
  options :: "(string \<times> bool) list"
  display :: string
  classList :: "string list"
  content :: content

text \<open>A child of a chat transcript: a message bubble made by \<open>createElement('div')\<close>, or the
  \<open>div\<close> that an \<open>innerHTML\<close> template of the script installs (its class, its style and
  its inner markup; the white-space text around it is dropped).\<close>

record node =
  nid :: string
  ncls :: string
  nstyle :: string
  nbody :: content

text \<open>The filter record that \<open>getFilters\<close> builds.\<close>

record filters =
  condition :: string
  intervention :: "string list"
  location :: string
  status :: "string list"
  studyType :: "string list"
  phase :: "string list"
  sex :: string
  ageGroups :: "string list"
  healthyVolunteers :: bool
  hasResults :: string
  hasProtocol :: bool
  hasSAP :: bool
  hasICF :: bool
  funderType :: "string list"
  studyStartFrom :: string
  studyStartTo :: string
  primaryCompletionFrom :: string
  primaryCompletionTo :: string
  title :: string
  outcome :: string
  sponsor :: string
  nctId :: string
  fdaaa801Violation :: bool
  useSemanticSearch :: bool
  page :: int
  per_page :: "int option"

text \<open>A button of the pagination bar. Its handler is a closure: \<open>Prev\<close> and \<open>Next\<close> read
  \<open>currentPage\<close> when the button is clicked, \<open>Goto i\<close> holds the loop variable.\<close>

datatype target = Prev | Next | Goto int

record pbutton =
  label :: string
  pdisabled :: bool
  pclass :: string
  onclick :: target

text \<open>A study card of the result list.\<close>

record card =
  cclass :: string
  chtml :: string

text \<open>The body of a request, before \<open>JSON.stringify\<close>; one constructor for each endpoint.\<close>

datatype request =
    Search filters
  | Chat "string option" string
  | ChatAll "filters option" string bool string
  | GenerateProtocolReport string string
  | AgenticSearch string
  | MultiAgentAnalysis string
  | CompareTrials "string list"
  | AmendmentRisk string
  | DesignPatterns string "string option" "string option"
  | SoAComposer string "string option" "string option"

text \<open>What comes back: \<open>fetch\<close> rejects with an error of some message, or there is a
  response with its \<open>ok\<close> flag whose \<open>json()\<close> rejects (\<open>Inl\<close>, the message) or yields the
  parsed body (\<open>Inr\<close>).\<close>

datatype 'd reply = Rejected string | Response bool "string + 'd"

text \<open>How a resumed handler ends: it returns, or an error escapes it.\<close>

datatype completion = Returned | Escaped

record state =
  currentChatStudy :: "string option"
  currentPage :: int
  totalPages :: int
  currentFilters :: "filters option"
  totalResults :: int
  isAdvancedMode :: bool
  byId :: "string \<Rightarrow> element"
  others :: "element list"
  chatMessages :: "node list"
  sidebarChatMessages :: "node list"
  resultsContainer :: "string + card list"
  pagination :: "pbutton list"
  alerts :: "string list"

text \<open>\<open>resultsContainer\<close> holds either markup assigned to \<open>innerHTML\<close> (\<open>Inl\<close>) or the cards
  appended to it; \<open>alerts\<close> is the log of the calls of \<open>alert\<close>, latest last.\<close>

definition upd :: "string \<Rightarrow> (element \<Rightarrow> element) \<Rightarrow> state \<Rightarrow> state" where
  "upd i f s = s\<lparr>byId := (byId s)(i := f (byId s i))\<rparr>"

definition alert :: "string \<Rightarrow> state \<Rightarrow> state" where
  "alert m s = s\<lparr>alerts := alerts s @ [m]\<rparr>"

text \<open>\<open>getElementById(i)\<close> followed by \<open>remove()\<close> among the children of a transcript: the
  first child with that id is taken out; \<open>None\<close> when there is none (the lookup is \<open>null\<close>
  and \<open>remove\<close> throws). The ids that the script makes (\<open>msg-...\<close> in the study chat,
  \<open>sidebar-msg-...\<close> in the sidebar) are taken to occur nowhere else in the page; the
  markup inside a child is not searched.\<close>

fun remove_id :: "string \<Rightarrow> node list \<Rightarrow> node list option" where
  "remove_id i [] = None"
| "remove_id i (n # ns) =
     (if nid n = i then Some ns
      else (case remove_id i ns of None \<Rightarrow> None | Some ms \<Rightarrow> Some (n # ms)))"

text \<open>\<open>querySelector('.c')\<close> followed by \<open>remove()\<close> if it found something: the first
  child whose class names, separated by spaces, include \<open>c\<close>.\<close>

definition has_class :: "string \<Rightarrow> node \<Rightarrow> bool" where
  "has_class c n = (c \<in> set (split_on (CHR '' '') (ncls n)))"

fun remove_class :: "string \<Rightarrow> node list \<Rightarrow> node list" where
  "remove_class c [] = []"
| "remove_class c (n # ns) = (if has_class c n then ns else n # remove_class c ns)"

text \<open>\<open>el.value\<close>: for a \<open>select\<close> the value of its first selected option, or the empty
  string when none is selected.\<close>

definition value_of :: "element \<Rightarrow> string" where
  "value_of e =
     (if tag e = ''select''
      then (case filter snd (options e) of [] \<Rightarrow> '''' | o1 # _ \<Rightarrow> fst o1)
      else val e)"

definition selectedOptions :: "element \<Rightarrow> string list" where
  "selectedOptions e = map fst (filter snd (options e))"

subsection \<open>Individual study chat\<close>

definition chat_placeholder :: "string \<Rightarrow> node" where
  \<open>chat_placeholder ttl =
     \<lparr>nid = '''', ncls = '''', nstyle = ''text-align: center; color: #666; padding: 20px;'',
      nbody = Html (''\<newline>            <strong>'' @ ttl @ ''</strong><br><br>\<newline>            Ask any question about this study.\<newline>        '')\<rparr>\<close>

definition openChatModal :: "string \<Rightarrow> string \<Rightarrow> state \<Rightarrow> state" where
  "openChatModal nct ttl s =
     (let s1 = s\<lparr>currentChatStudy := Some nct\<rparr>;
          s2 = upd ''chatStudyTitle'' (\<lambda>e. e\<lparr>content := Text (''Chat about '' @ nct)\<rparr>) s1;
          s3 = upd ''chatModal'' (\<lambda>e. e\<lparr>display := ''block''\<rparr>) s2
      in s3\<lparr>chatMessages := [chat_placeholder ttl]\<rparr>)"

definition closeChatModal :: "state \<Rightarrow> state" where
  "closeChatModal s =
     (upd ''chatModal'' (\<lambda>e. e\<lparr>display := ''none''\<rparr>) s)\<lparr>currentChatStudy := None\<rparr>"

text \<open>A message bubble: \<open>innerHTML\<close> for the assistant, \<open>textContent\<close> otherwise.\<close>

definition bubble :: "string \<Rightarrow> string \<Rightarrow> string \<Rightarrow> node" where
  "bubble i txt ty =
     \<lparr>nid = i, ncls = ''chat-message '' @ ty, nstyle = '''',
      nbody = (if ty = ''assistant'' then Html txt else Text txt)\<rparr>"

definition addModalMessage :: "nat \<Rightarrow> string \<Rightarrow> string \<Rightarrow> state \<Rightarrow> string \<times> state" where
  "addModalMessage now txt ty s =
     (let i = ''msg-'' @ dec now
      in (i, s\<lparr>chatMessages := chatMessages s @ [bubble i txt ty]\<rparr>))"

text \<open>The body of a reply of \<open>/api/chat\<close> and \<open>/api/chat-all\<close>.\<close>

record body =
  error :: "string option"

record chat_data = body +
  answer :: "string option"
  info :: "string option"

text \<open>\<open>sendMessage\<close> up to \<open>fetch\<close>. The result holds the captured \<open>loadingId\<close> and the
  request, or nothing when the handler returned at its guard.\<close>

definition sendMessage_begin :: "nat \<Rightarrow> nat \<Rightarrow> state \<Rightarrow> state \<times> (string \<times> request) option" where
  "sendMessage_begin now1 now2 s =
     (let question = trim (value_of (byId s ''chatInput''))
      in if question = [] \<or> \<not> truthy (currentChatStudy s) then (s, None)
         else
           (let (_, s1) = addModalMessage now1 question ''user'' s;
                s2 = upd ''chatInput'' (\<lambda>e. e\<lparr>val := ''''\<rparr>) s1;
                (loadingId, s3) = addModalMessage now2 ''Analyzing study data...'' ''loading'' s2
            in (s3, Some (loadingId, Chat (currentChatStudy s3) question))))"

text \<open>The \<open>catch\<close> block of \<open>sendMessage\<close>.\<close>

definition sendMessage_catch :: "nat \<Rightarrow> string \<Rightarrow> state \<Rightarrow> state \<times> completion" where
  "sendMessage_catch now loadingId s =
     (case remove_id loadingId (chatMessages s) of
        None \<Rightarrow> (s, Escaped)
      | Some ms \<Rightarrow>
          (snd (addModalMessage now ''Error: Failed to get response.'' ''assistant''
                  (s\<lparr>chatMessages := ms\<rparr>)), Returned))"

definition sendMessage_finish ::
  "nat \<Rightarrow> string \<Rightarrow> chat_data reply \<Rightarrow> state \<Rightarrow> state \<times> completion" where
  "sendMessage_finish now loadingId r s =
     (case r of
        Response ok (Inr data) \<Rightarrow>
          (case remove_id loadingId (chatMessages s) of
             None \<Rightarrow> sendMessage_catch now loadingId s
           | Some ms \<Rightarrow>
               (let s1 = s\<lparr>chatMessages := ms\<rparr>
                in if truthy (error data)
                   then (snd (addModalMessage now (''Error: '' @ str (error data)) ''assistant'' s1),
                         Returned)
                   else (snd (addModalMessage now (str (answer data)) ''assistant'' s1), Returned)))
      | _ \<Rightarrow> sendMessage_catch now loadingId s)"

subsection \<open>Chat about all filtered studies\<close>

definition addSidebarMessage :: "nat \<Rightarrow> string \<Rightarrow> string \<Rightarrow> state \<Rightarrow> string \<times> state" where
  "addSidebarMessage now txt ty s =
     (let ms = remove_class ''chat-placeholder'' (sidebarChatMessages s);
          i = ''sidebar-msg-'' @ dec now
      in (i, s\<lparr>sidebarChatMessages := ms @ [bubble i txt ty]\<rparr>))"

definition sendSidebarMessage_begin ::
  "nat \<Rightarrow> nat \<Rightarrow> state \<Rightarrow> state \<times> (string \<times> request) option" where
  "sendSidebarMessage_begin now1 now2 s =
     (let question = trim (value_of (byId s ''sidebarChatInput''))
      in if question = [] \<or> currentFilters s = None then (s, None)
         else
           (let (_, s1) = addSidebarMessage now1 question ''user'' s;
                s2 = upd ''sidebarChatInput'' (\<lambda>e. e\<lparr>val := ''''\<rparr>) s1;
                s3 = upd ''sidebarSendBtn'' (\<lambda>e. e\<lparr>disabled := True\<rparr>) s2;
                s4 = upd ''sidebarChatInput'' (\<lambda>e. e\<lparr>disabled := True\<rparr>) s3;
                modeText = (if isAdvancedMode s4 then ''ALL complete study data''
                            else ''essential study data'');
                (loadingId, s5) = addSidebarMessage now2
                   (''Analyzing '' @ modeText @ '' from filtered studies...'') ''loading'' s4;
                selectedModel = value_of (byId s5 ''llmModelSelector'')
            in (s5, Some (loadingId,
                  ChatAll (currentFilters s5) question (isAdvancedMode s5) selectedModel))))"

definition infoBadge :: "string \<Rightarrow> string" where
  \<open>infoBadge i =
     ''<div style="background: #e3f2fd; border-left: 4px solid #2196f3; padding: 10px; margin-bottom: 10px; font-size: 12px;">\<newline>                    <strong>&#x2139;&#xFE0F; Analysis Info:</strong> ''
     @ i @ ''\<newline>                </div>''\<close>

text \<open>The \<open>try\<close> and \<open>catch\<close> blocks of \<open>sendSidebarMessage\<close>; the \<open>finally\<close> block follows
  in \<open>sendSidebarMessage_finish\<close>.\<close>

definition sendSidebarMessage_catch :: "nat \<Rightarrow> string \<Rightarrow> state \<Rightarrow> state \<times> completion" where
  "sendSidebarMessage_catch now loadingId s =
     (case remove_id loadingId (sidebarChatMessages s) of
        None \<Rightarrow> (s, Escaped)
      | Some ms \<Rightarrow>
          (snd (addSidebarMessage now ''Error: Failed to get response.'' ''assistant''
                  (s\<lparr>sidebarChatMessages := ms\<rparr>)), Returned))"

definition sendSidebarMessage_try ::
  "nat \<Rightarrow> string \<Rightarrow> chat_data reply \<Rightarrow> state \<Rightarrow> state \<times> completion" where
  "sendSidebarMessage_try now loadingId r s =
     (case r of
        Response ok (Inr data) \<Rightarrow>
          (case remove_id loadingId (sidebarChatMessages s) of
             None \<Rightarrow> sendSidebarMessage_catch now loadingId s
           | Some ms \<Rightarrow>
               (let s1 = s\<lparr>sidebarChatMessages := ms\<rparr>
                in if truthy (error data)
                   then (snd (addSidebarMessage now (''Error: '' @ str (error data)) ''assistant'' s1),
                         Returned)
                   else
                     (let answer0 = str (answer data);
                          answer1 = (if truthy (info data) then infoBadge (str (info data)) @ answer0
                                     else answer0)
                      in (snd (addSidebarMessage now answer1 ''assistant'' s1), Returned))))
      | _ \<Rightarrow> sendSidebarMessage_catch now loadingId s)"

definition sendSidebarMessage_finish ::
  "nat \<Rightarrow> string \<Rightarrow> chat_data reply \<Rightarrow> state \<Rightarrow> state \<times> completion" where
  "sendSidebarMessage_finish now loadingId r s =
     (let (s1, c) = sendSidebarMessage_try now loadingId r s;
          s2 = upd ''sidebarSendBtn'' (\<lambda>e. e\<lparr>disabled := False\<rparr>) s1;
          s3 = upd ''sidebarChatInput'' (\<lambda>e. e\<lparr>disabled := False\<rparr>) s2
      in (s3, c))"

subsection \<open>Search\<close>

definition getFilters :: "state \<Rightarrow> filters" where
  "getFilters s =
     (let interventionText = trim (value_of (byId s ''intervention''));
          intervention0 =
            (if interventionText \<noteq> []
             then filter (\<lambda>i. i \<noteq> []) (map trim (split_on (CHR '','') interventionText))
             else [])
      in \<lparr>condition = value_of (byId s ''condition''),
          intervention = intervention0,
          location = value_of (byId s ''location''),
          status = selectedOptions (byId s ''status''),
          studyType = selectedOptions (byId s ''studyType''),
          phase = selectedOptions (byId s ''phase''),
          sex = value_of (byId s ''sex''),
          ageGroups =
            map value_of
              (filter (\<lambda>cb. tag cb = ''input'' \<and> ename cb = ''ageGroups'' \<and> checked cb) (others s)),
          healthyVolunteers = checked (byId s ''healthyVolunteers''),
          hasResults = value_of (byId s ''hasResults''),
          hasProtocol = checked (byId s ''hasProtocol''),
          hasSAP = checked (byId s ''hasSAP''),
          hasICF = checked (byId s ''hasICF''),
          funderType = selectedOptions (byId s ''funderType''),
          studyStartFrom = value_of (byId s ''studyStartFrom''),
          studyStartTo = value_of (byId s ''studyStartTo''),
          primaryCompletionFrom = value_of (byId s ''primaryCompletionFrom''),
          primaryCompletionTo = value_of (byId s ''primaryCompletionTo''),
          title = value_of (byId s ''title''),
          outcome = value_of (byId s ''outcome''),
          sponsor = value_of (byId s ''sponsor''),
          nctId = value_of (byId s ''nctId''),
          fdaaa801Violation = checked (byId s ''fdaaa801Violation''),
          useSemanticSearch = checked (byId s ''useSemanticSearch''),
          page = currentPage s,
          per_page = parseInt (value_of (byId s ''perPage''))\<rparr>)"

text \<open>A study of the result list, with the nested modules of \<open>protocolSection\<close> flattened
  to the fields that the script reads.\<close>

record study =
  st_nctId :: string
  briefTitle :: "string option"
  overallStatus :: string
  st_studyType :: string
  phases :: "string list option"
  leadSponsorName :: "string option"
  st_hasResults :: bool

record search_data = body +
  total_pages :: int
  total :: int
  searchType :: "string option"
  results :: "study list"

definition study_card :: "study \<Rightarrow> card" where
  \<open>study_card st =
     (let statusClass =
            (if overallStatus st = ''RECRUITING'' then ''recruiting''
             else if overallStatus st = ''COMPLETED'' then ''completed'' else '''')
      in \<lparr>cclass = ''study-card'',
          chtml =
            ''\<newline>            <h3 onclick="window.open('https://clinicaltrials.gov/study/'' @ st_nctId st @ sq @ '', '_blank')">\<newline>                ''
            @ st_nctId st @ '': '' @ or_else (briefTitle st) ''No title''
            @ ''\<newline>            </h3>\<newline>            <div class="study-meta">\<newline>                <div class="meta-item">\<newline>                    <span class="meta-label">Status:</span>\<newline>                    <span class="badge ''
            @ statusClass @ ''">'' @ overallStatus st
            @ ''</span>\<newline>                </div>\<newline>                <div class="meta-item">\<newline>                    <span class="meta-label">Type:</span>\<newline>                    <span class="meta-value">''
            @ st_studyType st
            @ ''</span>\<newline>                </div>\<newline>                <div class="meta-item">\<newline>                    <span class="meta-label">Phase:</span>\<newline>                    <span class="meta-value">''
            @ or_else (map_option (join '', '') (phases st)) ''N/A''
            @ ''</span>\<newline>                </div>\<newline>                <div class="meta-item">\<newline>                    <span class="meta-label">Sponsor:</span>\<newline>                    <span class="meta-value">''
            @ or_else (leadSponsorName st) ''N/A''
            @ ''</span>\<newline>                </div>\<newline>                <div class="meta-item">\<newline>                    <span class="meta-label">Results:</span>\<newline>                    ''
            @ (if st_hasResults st then ''<span class="badge has-results">Has Results</span>''
               else ''<span class="meta-value">No Results</span>'')
            @ ''\<newline>                </div>\<newline>            </div>\<newline>            <button onclick="openChatModal(''
            @ sq @ st_nctId st @ sq @ '', '' @ sq
            @ replace_all sq (bs @ sq) (or_else (briefTitle st) '''') @ sq
            @ ''); event.stopPropagation();" \<newline>                style="margin-top: 10px; padding: 8px 16px; background: #28a745; color: white; border: none; border-radius: 4px; cursor: pointer;">\<newline>                &#x1F4AC; Ask About This Study\<newline>            </button>\<newline>        ''\<rparr>)\<close>

definition displayResults :: "search_data \<Rightarrow> state \<Rightarrow> state" where
  "displayResults data s =
     (if results data = []
      then s\<lparr>resultsContainer := Inl ''<p>No studies found matching your criteria.</p>''\<rparr>
      else s\<lparr>resultsContainer := Inr (map study_card (results data))\<rparr>)"

definition displayPagination :: "state \<Rightarrow> state" where
  "displayPagination s =
     (if totalPages s \<le> 1 then s\<lparr>pagination := []\<rparr>
      else
        (let prevBtn = \<lparr>label = [CHR 0xAB] @ '' Previous'', pdisabled = (currentPage s = 1),
                        pclass = '''', onclick = Prev\<rparr>;
             startPage = max 1 (currentPage s - 3);
             endPage = min (totalPages s) (currentPage s + 3);
             btns = map (\<lambda>i. \<lparr>label = num i, pdisabled = False,
                                pclass = (if i = currentPage s then ''active'' else ''''),
                                onclick = Goto i\<rparr>) [startPage..endPage];
             nextBtn = \<lparr>label = ''Next '' @ [CHR 0xBB], pdisabled = (currentPage s = totalPages s),
                        pclass = '''', onclick = Next\<rparr>
         in s\<lparr>pagination := [prevBtn] @ btns @ [nextBtn]\<rparr>))"

text \<open>\<open>searchStudies(page = 1)\<close> up to \<open>fetch\<close>; an omitted argument is \<open>None\<close>.\<close>

definition searchStudies_begin :: "int option \<Rightarrow> state \<Rightarrow> state \<times> request" where
  "searchStudies_begin pg s =
     (let s1 = s\<lparr>currentPage := (case pg of None \<Rightarrow> 1 | Some p \<Rightarrow> p)\<rparr>;
          fs = getFilters s1;
          s2 = s1\<lparr>currentFilters := Some fs\<rparr>
      in (s2, Search fs))"

definition classList_add :: "string \<Rightarrow> string list \<Rightarrow> string list" where
  "classList_add c cs = (if c \<in> set cs then cs else cs @ [c])"

definition classList_remove :: "string \<Rightarrow> string list \<Rightarrow> string list" where
  "classList_remove c cs = filter (\<lambda>x. x \<noteq> c) cs"

text \<open>\<open>searchStudies\<close> from the reply on. \<open>toLocaleString\<close> depends on the browser's locale
  and is an argument.\<close>

definition searchStudies_finish :: "(int \<Rightarrow> string) \<Rightarrow> search_data reply \<Rightarrow> state \<Rightarrow> state" where
  \<open>searchStudies_finish toLocaleString r s =
     (case r of
        Rejected m \<Rightarrow> alert (''Error: '' @ m) s
      | Response ok j \<Rightarrow>
          if \<not> ok then alert (''Error: '' @ ''Search failed'') s
          else
            (case j of
               Inl m \<Rightarrow> alert (''Error: '' @ m) s
             | Inr data \<Rightarrow>
                 (let s1 = s\<lparr>totalPages := total_pages data, totalResults := total data\<rparr>;
                      s2 = (if searchType data = Some ''semantic''
                            then upd ''totalCount'' (\<lambda>e. e\<lparr>content := Html (toLocaleString (total data) @ '' <span style="background: #667eea; color: white; padding: 2px 8px; border-radius: 4px; font-size: 11px; margin-left: 5px;">&#x1F680; AI SEMANTIC</span>'')\<rparr>) s1
                            else upd ''totalCount'' (\<lambda>e. e\<lparr>content := Text (toLocaleString (total data))\<rparr>) s1);
                      s3 = displayResults data s2;
                      s4 = displayPagination s3;
                      s5 = upd ''sidebarChatInput'' (\<lambda>e. e\<lparr>disabled := False\<rparr>) s4;
                      s6 = upd ''sidebarSendBtn'' (\<lambda>e. e\<lparr>disabled := False\<rparr>) s5
                  in if isAdvancedMode s6 \<and> totalResults s6 > 50
                     then upd ''advancedWarning'' (\<lambda>e. e\<lparr>classList := classList_add ''show'' (classList e)\<rparr>) s6
                     else upd ''advancedWarning'' (\<lambda>e. e\<lparr>classList := classList_remove ''show'' (classList e)\<rparr>) s6)))\<close>

text \<open>A click on a button of the pagination bar: a disabled button does nothing.\<close>

definition resolve :: "target \<Rightarrow> state \<Rightarrow> int" where
  "resolve t s = (case t of Prev \<Rightarrow> currentPage s - 1 | Next \<Rightarrow> currentPage s + 1 | Goto i \<Rightarrow> i)"

definition click :: "pbutton \<Rightarrow> state \<Rightarrow> (state \<times> request) option" where
  "click b s =
     (if pdisabled b then None else Some (searchStudies_begin (Some (resolve (onclick b) s)) s))"

definition sidebar_placeholder :: node where
  \<open>sidebar_placeholder =
     \<lparr>nid = '''', ncls = ''chat-placeholder'', nstyle = '''',
      nbody = Html ''\<newline>            <h3>Search first, then ask questions!</h3>\<newline>            <p style="margin: 15px 0;">After searching, ask questions about all filtered studies</p>\<newline>        ''\<rparr>\<close>

text \<open>What the three \<open>querySelectorAll(...).forEach\<close> of \<open>clearFilters\<close> do to one element
  of id \<open>i\<close> (empty for an element without id).\<close>

definition clear_control :: "string \<Rightarrow> element \<Rightarrow> element" where
  "clear_control i e =
     (let e1 = (if tag e = ''input'' \<and> (etype e = ''text'' \<or> etype e = ''date'')
                then e\<lparr>val := ''''\<rparr> else e);
          e2 = (if tag e1 = ''select'' \<and> i \<noteq> ''perPage''
                then e1\<lparr>options := map (\<lambda>opt. (fst opt, False)) (options e1)\<rparr> else e1)
      in if tag e2 = ''input'' \<and> etype e2 = ''checkbox'' then e2\<lparr>checked := False\<rparr> else e2)"

definition clearFilters :: "state \<Rightarrow> state" where
  "clearFilters s =
     (let s1 = s\<lparr>byId := (\<lambda>i. clear_control i (byId s i)),
                  others := map (clear_control '''') (others s)\<rparr>;
          s2 = s1\<lparr>currentPage := 1, currentFilters := None\<rparr>;
          s3 = s2\<lparr>resultsContainer := Inl ''''\<rparr>;
          s4 = upd ''totalCount'' (\<lambda>e. e\<lparr>content := Text ''0''\<rparr>) s3;
          s5 = s4\<lparr>sidebarChatMessages := [sidebar_placeholder]\<rparr>;
          s6 = upd ''sidebarChatInput'' (\<lambda>e. e\<lparr>disabled := True\<rparr>) s5
      in upd ''sidebarSendBtn'' (\<lambda>e. e\<lparr>disabled := True\<rparr>) s6)"

subsection \<open>Protocol designer\<close>

record protocol_data = body +
  report :: string

definition p_spaced :: string where
  \<open>p_spaced = ''<p style="margin-bottom: 1em;">''\<close>

definition generateProtocolReport_begin :: "state \<Rightarrow> state \<times> request option" where
  "generateProtocolReport_begin s =
     (let condition0 = trim (value_of (byId s ''protocolCondition''));
          intervention0 = trim (value_of (byId s ''protocolIntervention''))
      in if condition0 = [] then (alert ''Please enter a condition or disease'' s, None)
         else
           (let s1 = upd ''protocolLoading'' (\<lambda>e. e\<lparr>display := ''block''\<rparr>) s;
                s2 = upd ''protocolReportContainer'' (\<lambda>e. e\<lparr>display := ''none''\<rparr>) s1
            in (s2, Some (GenerateProtocolReport condition0 intervention0))))"

definition generateProtocolReport_catch :: "string \<Rightarrow> state \<Rightarrow> state" where
  "generateProtocolReport_catch m s =
     alert (''Error generating report: '' @ m)
       (upd ''protocolLoading'' (\<lambda>e. e\<lparr>display := ''none''\<rparr>) s)"

definition generateProtocolReport_finish :: "protocol_data reply \<Rightarrow> state \<Rightarrow> state" where
  "generateProtocolReport_finish r s =
     (case r of
        Rejected m \<Rightarrow> generateProtocolReport_catch m s
      | Response ok (Inl m) \<Rightarrow> generateProtocolReport_catch m s
      | Response ok (Inr data) \<Rightarrow>
          (let s1 = upd ''protocolLoading'' (\<lambda>e. e\<lparr>display := ''none''\<rparr>) s
           in if truthy (error data) then alert (''Error: '' @ str (error data)) s1
              else
                (let reportContent =
                       replace_all ''</p>'' ''</p>'' (replace_all ''<p>'' p_spaced (report data));
                     s2 = upd ''protocolReportContent'' (\<lambda>e. e\<lparr>content := Html reportContent\<rparr>) s1
                 in upd ''protocolReportContainer'' (\<lambda>e. e\<lparr>display := ''block''\<rparr>) s2)))"

subsection \<open>Agentic features\<close>

text \<open>The bodies of the six agent endpoints: \<open>success\<close>, \<open>error\<close>, and the fields that the
  success branch reads, typed as that branch uses them. The nested objects
  \<open>terminology_expansion\<close>, \<open>search_strategy\<close> and \<open>comparisons\<close> are flattened.\<close>

record 'p agent_data = body +
  success :: bool
  payload :: 'p

record agent_analysis =
  agent :: string
  focus_areas :: "string list"
  agent_content :: string

record trial =
  nct_id :: string
  trial_title :: string

record query =
  q_condition :: string
  q_phase :: "string option"
  trials_analyzed :: int

record reference_trial =
  ref_nct_id :: string
  primary_outcome :: string
  primary_timeframe :: string

record agentic_search =
  synonyms :: "string list"
  related_terms :: "string list"
  abbreviations :: "string list"
  boolean_strategy :: string
  priority_terms :: "string list"
  enhanced_search_terms :: "string list"

record analysis =
  an_trial :: trial
  an_agent_analyses :: "agent_analysis list"
  executive_summary :: string

record comparison =
  trials :: "trial list"
  eligibility :: string
  design :: string
  endpoints :: string
  strategic_synthesis :: string

record amendment =
  am_trial :: trial
  am_agent_analyses :: "agent_analysis list"
  risk_assessment :: string

record design_patterns =
  dp_query :: query
  trials_by_phase :: "(string \<times> int) list option"
  dp_agent_analyses :: "agent_analysis list"
  strategic_insights :: string

record soa =
  soa_query :: query
  reference_trials :: "reference_trial list option"
  soa_agent_analyses :: "agent_analysis list"
  complete_soa :: string

definition showAgentLoading :: "string \<Rightarrow> state \<Rightarrow> state" where
  \<open>showAgentLoading resultId s =
     upd resultId (\<lambda>e. e\<lparr>content := Html ''<div style="text-align: center; padding: 40px; color: #667eea;"><div style="font-size: 48px; margin-bottom: 15px;">&#x23F3;</div><h3>AI agents working...</h3><p>Multiple specialized agents are analyzing your request</p></div>'',
                         display := ''block''\<rparr>) s\<close>

definition error_box :: "string \<Rightarrow> string" where
  \<open>error_box message =
     ''<div style="background: #fee; color: #c00; padding: 15px; border-radius: 5px; border-left: 4px solid #c00;"><strong>Error:</strong> '' @ message @ ''</div>''\<close>

definition showAgentError :: "string \<Rightarrow> string \<Rightarrow> state \<Rightarrow> state" where
  "showAgentError resultId message s =
     upd resultId (\<lambda>e. e\<lparr>content := Html (error_box message), display := ''block''\<rparr>) s"

text \<open>\<open>x || null\<close> on a string.\<close>

definition or_null :: "string \<Rightarrow> string option" where
  "or_null x = (if x \<noteq> [] then Some x else None)"

text \<open>The result templates of the six features.\<close>

definition agenticSearch_html :: "agentic_search \<Rightarrow> string" where
  \<open>agenticSearch_html d =
     ''<div style="background: #efe; color: #060; padding: 15px; border-radius: 5px; border-left: 4px solid #060; margin-bottom: 15px;">&#x2705; Search enhancement complete!</div>''
     @ ''<div style="background: white; padding: 15px; border-radius: 5px; margin-bottom: 15px; border-left: 4px solid #667eea;">''
     @ ''<h3 style="color: #667eea; font-size: 16px; margin-bottom: 10px;">&#x1F4DA; Medical Terminology Agent</h3>''
     @ ''<p><strong>Synonyms:</strong> '' @ join '', '' (synonyms d) @ ''</p>''
     @ ''<p><strong>Related Terms:</strong> '' @ join '', '' (related_terms d) @ ''</p>''
     @ ''<p><strong>Abbreviations:</strong> '' @ join '', '' (abbreviations d) @ ''</p>''
     @ ''</div>''
     @ ''<div style="background: white; padding: 15px; border-radius: 5px; margin-bottom: 15px; border-left: 4px solid #667eea;">''
     @ ''<h3 style="color: #667eea; font-size: 16px; margin-bottom: 10px;">&#x1F3AF; Search Strategy Agent</h3>''
     @ ''<p><strong>Strategy:</strong> '' @ boolean_strategy d @ ''</p>''
     @ ''<p><strong>Priority Terms:</strong> '' @ join '' > '' (priority_terms d) @ ''</p>''
     @ ''</div>''
     @ ''<div style="background: white; padding: 15px; border-radius: 5px; margin-bottom: 15px; border-left: 4px solid #667eea;">''
     @ ''<h3 style="color: #667eea; font-size: 16px; margin-bottom: 10px;">&#x2728; Enhanced Search Terms</h3>''
     @ ''<p style="margin-bottom: 1em;">'' @ join '', '' (enhanced_search_terms d) @ ''</p>''
     @ ''</div>''
     @ ''<div style="text-align: right; margin-top: 15px;"><button onclick="downloadReportAsPDF('agenticSearchResult', 'Agentic-Search-Report')" style="padding: 10px 20px; background: #667eea; color: white; border: none; border-radius: 5px; cursor: pointer; font-weight: bold;">&#x1F4E5; Download as PDF</button></div>''\<close>

definition analysis_agent_html :: "agent_analysis \<Rightarrow> string" where
  \<open>analysis_agent_html a =
     ''<div style="background: white; padding: 15px; border-radius: 5px; margin-bottom: 15px; border-left: 4px solid #667eea; line-height: 1.8;">''
     @ ''<h3 style="color: #667eea; font-size: 16px; margin-bottom: 10px;">'' @ agent a @ ''</h3>''
     @ ''<div style="color: #888; font-size: 12px; margin-bottom: 10px; font-style: italic;">Focus: '' @ join '', '' (focus_areas a) @ ''</div>''
     @ replace_all ''<p>'' p_spaced (agent_content a)
     @ ''</div>''\<close>

definition analysis_html :: "analysis \<Rightarrow> string" where
  \<open>analysis_html d =
     ''<div style="background: #efe; color: #060; padding: 15px; border-radius: 5px; border-left: 4px solid #060; margin-bottom: 15px;">&#x2705; Multi-agent analysis complete!</div>''
     @ ''<div style="background: white; padding: 15px; border-radius: 5px; margin-bottom: 15px; border-left: 4px solid #667eea;"><h3 style="color: #667eea; font-size: 16px; margin-bottom: 10px;">Trial: '' @ nct_id (an_trial d) @ ''</h3><p>'' @ trial_title (an_trial d) @ ''</p></div>''
     @ concat (map analysis_agent_html (an_agent_analyses d))
     @ ''<div style="background: white; padding: 15px; border-radius: 5px; margin-bottom: 15px; border-left: 4px solid #d4af37; line-height: 1.8;">''
     @ ''<h3 style="color: #d4af37; font-size: 16px; margin-bottom: 10px;">&#x1F454; Executive Summary (Chief Strategist)</h3>''
     @ replace_all ''<p>'' p_spaced (executive_summary d)
     @ ''</div>''
     @ ''<div style="text-align: right; margin-top: 15px;"><button onclick="downloadReportAsPDF('analysisResult', 'Multi-Agent-Analysis-Report')" style="padding: 10px 20px; background: #667eea; color: white; border: none; border-radius: 5px; cursor: pointer; font-weight: bold;">&#x1F4E5; Download as PDF</button></div>''\<close>

definition compare_trial_html :: "trial \<Rightarrow> string" where
  \<open>compare_trial_html t =
     ''<li><strong>'' @ nct_id t @ ''</strong>: '' @ trial_title t @ ''</li>''\<close>

definition compare_html :: "comparison \<Rightarrow> string" where
  \<open>compare_html d =
     ''<div style="background: #efe; color: #060; padding: 15px; border-radius: 5px; border-left: 4px solid #060; margin-bottom: 15px;">&#x2705; Multi-agent comparison complete!</div>''
     @ ''<div style="background: white; padding: 15px; border-radius: 5px; margin-bottom: 15px; border-left: 4px solid #667eea;"><h3 style="color: #667eea; font-size: 16px; margin-bottom: 10px;">Trials Compared</h3><ul>''
     @ concat (map compare_trial_html (trials d))
     @ ''</ul></div>''
     @ ''<div style="background: white; padding: 15px; border-radius: 5px; margin-bottom: 15px; border-left: 4px solid #667eea; line-height: 1.8;">''
     @ ''<h3 style="color: #667eea; font-size: 16px; margin-bottom: 10px;">&#x1F465; Eligibility Comparison</h3>''
     @ replace_all ''<p>'' p_spaced (eligibility d)
     @ ''</div>''
     @ ''<div style="background: white; padding: 15px; border-radius: 5px; margin-bottom: 15px; border-left: 4px solid #667eea; line-height: 1.8;">''
     @ ''<h3 style="color: #667eea; font-size: 16px; margin-bottom: 10px;">&#x1F4D0; Design Comparison</h3>''
     @ replace_all ''<p>'' p_spaced (design d)
     @ ''</div>''
     @ ''<div style="background: white; padding: 15px; border-radius: 5px; margin-bottom: 15px; border-left: 4px solid #667eea; line-height: 1.8;">''
     @ ''<h3 style="color: #667eea; font-size: 16px; margin-bottom: 10px;">&#x1F3AF; Endpoints Comparison</h3>''
     @ replace_all ''<p>'' p_spaced (endpoints d)
     @ ''</div>''
     @ ''<div style="background: white; padding: 15px; border-radius: 5px; margin-bottom: 15px; border-left: 4px solid #d4af37; line-height: 1.8;">''
     @ ''<h3 style="color: #d4af37; font-size: 16px; margin-bottom: 10px;">&#x1F9E0; Strategic Synthesis</h3>''
     @ replace_all ''<p>'' p_spaced (strategic_synthesis d)
     @ ''</div>''
     @ ''<div style="text-align: right; margin-top: 15px;"><button onclick="downloadReportAsPDF('compareResult', 'Trial-Comparison-Report')" style="padding: 10px 20px; background: #667eea; color: white; border: none; border-radius: 5px; cursor: pointer; font-weight: bold;">&#x1F4E5; Download as PDF</button></div>''\<close>

definition amendment_agent_html :: "agent_analysis \<Rightarrow> string" where
  \<open>amendment_agent_html a =
     ''<div style="background: white; padding: 15px; border-radius: 5px; margin-bottom: 15px; border-left: 4px solid #ff6b6b; line-height: 1.8;">''
     @ ''<h3 style="color: #ff6b6b; font-size: 16px; margin-bottom: 10px;">'' @ agent a @ ''</h3>''
     @ ''<div style="color: #888; font-size: 12px; margin-bottom: 10px; font-style: italic;">Focus: '' @ join '', '' (focus_areas a) @ ''</div>''
     @ replace_all ''<p>'' p_spaced (agent_content a)
     @ ''</div>''\<close>

definition amendment_html :: "amendment \<Rightarrow> string" where
  \<open>amendment_html d =
     ''<div style="background: #efe; color: #060; padding: 15px; border-radius: 5px; border-left: 4px solid #060; margin-bottom: 15px;">&#x2705; Amendment risk analysis complete!</div>''
     @ ''<div style="background: white; padding: 15px; border-radius: 5px; margin-bottom: 15px; border-left: 4px solid #ff6b6b;"><h3 style="color: #ff6b6b; font-size: 16px; margin-bottom: 10px;">Trial: '' @ nct_id (am_trial d) @ ''</h3><p>'' @ trial_title (am_trial d) @ ''</p></div>''
     @ concat (map amendment_agent_html (am_agent_analyses d))
     @ ''<div style="background: white; padding: 15px; border-radius: 5px; margin-bottom: 15px; border-left: 4px solid #d4af37; line-height: 1.8;">''
     @ ''<h3 style="color: #d4af37; font-size: 16px; margin-bottom: 10px;">&#x26A0;&#xFE0F; Overall Risk Assessment</h3>''
     @ replace_all ''<p>'' p_spaced (risk_assessment d)
     @ ''</div>''
     @ ''<div style="text-align: right; margin-top: 15px;"><button onclick="downloadReportAsPDF('amendmentResult', 'Amendment-Risk-Report')" style="padding: 10px 20px; background: #ff6b6b; color: white; border: none; border-radius: 5px; cursor: pointer; font-weight: bold;">&#x1F4E5; Download as PDF</button></div>''\<close>

definition pattern_agent_html :: "agent_analysis \<Rightarrow> string" where
  \<open>pattern_agent_html a =
     ''<div style="background: white; padding: 15px; border-radius: 5px; margin-bottom: 15px; border-left: 4px solid #4ecdc4; line-height: 1.8;">''
     @ ''<h3 style="color: #4ecdc4; font-size: 16px; margin-bottom: 10px;">'' @ agent a @ ''</h3>''
     @ ''<div style="color: #888; font-size: 12px; margin-bottom: 10px; font-style: italic;">Focus: '' @ join '', '' (focus_areas a) @ ''</div>''
     @ replace_all ''<p>'' p_spaced (agent_content a)
     @ ''</div>''\<close>

definition pattern_html :: "design_patterns \<Rightarrow> string" where
  \<open>pattern_html d =
     ''<div style="background: #efe; color: #060; padding: 15px; border-radius: 5px; border-left: 4px solid #060; margin-bottom: 15px;">&#x2705; Design pattern analysis complete!</div>''
     @ ''<div style="background: white; padding: 15px; border-radius: 5px; margin-bottom: 15px; border-left: 4px solid #4ecdc4;">''
     @ ''<h3 style="color: #4ecdc4; font-size: 16px; margin-bottom: 10px;">Query Summary</h3>''
     @ ''<p><strong>Condition:</strong> '' @ q_condition (dp_query d) @ ''</p>''
     @ ''<p><strong>Phase:</strong> '' @ or_else (q_phase (dp_query d)) ''All phases'' @ ''</p>''
     @ ''<p><strong>Trials Analyzed:</strong> '' @ num (trials_analyzed (dp_query d)) @ ''</p>''
     @ (case trials_by_phase d of None \<Rightarrow> '''' | Some tbp \<Rightarrow> ''<p><strong>Distribution:</strong> '' @ join '', '' (map (\<lambda>kv. fst kv @ '': '' @ num (snd kv)) tbp) @ ''</p>'')
     @ ''</div>''
     @ concat (map pattern_agent_html (dp_agent_analyses d))
     @ ''<div style="background: white; padding: 15px; border-radius: 5px; margin-bottom: 15px; border-left: 4px solid #d4af37; line-height: 1.8;">''
     @ ''<h3 style="color: #d4af37; font-size: 16px; margin-bottom: 10px;">&#x1F9E0; Strategic Design Blueprint</h3>''
     @ replace_all ''<p>'' p_spaced (strategic_insights d)
     @ ''</div>''
     @ ''<div style="text-align: right; margin-top: 15px;"><button onclick="downloadReportAsPDF('patternResult', 'Design-Pattern-Report')" style="padding: 10px 20px; background: #4ecdc4; color: white; border: none; border-radius: 5px; cursor: pointer; font-weight: bold;">&#x1F4E5; Download as PDF</button></div>''\<close>

definition soa_agent_html :: "agent_analysis \<Rightarrow> string" where
  \<open>soa_agent_html a =
     ''<div style="background: white; padding: 15px; border-radius: 5px; margin-bottom: 15px; border-left: 4px solid #f7b731; line-height: 1.8;">''
     @ ''<h3 style="color: #f7b731; font-size: 16px; margin-bottom: 10px;">'' @ agent a @ ''</h3>''
     @ ''<div style="color: #888; font-size: 12px; margin-bottom: 10px; font-style: italic;">Focus: '' @ join '', '' (focus_areas a) @ ''</div>''
     @ replace_all ''<p>'' p_spaced (agent_content a)
     @ ''</div>''\<close>

definition soa_reference_html :: "reference_trial \<Rightarrow> string" where
  \<open>soa_reference_html t =
     ''<li><strong>'' @ ref_nct_id t @ ''</strong>: '' @ primary_outcome t @ '' ('' @ primary_timeframe t @ '')</li>''\<close>

definition soa_html :: "soa \<Rightarrow> string" where
  \<open>soa_html d =
     ''<div style="background: #efe; color: #060; padding: 15px; border-radius: 5px; border-left: 4px solid #060; margin-bottom: 15px;">&#x2705; SoA composition complete!</div>''
     @ ''<div style="background: white; padding: 15px; border-radius: 5px; margin-bottom: 15px; border-left: 4px solid #f7b731;">''
     @ ''<h3 style="color: #f7b731; font-size: 16px; margin-bottom: 10px;">Query Summary</h3>''
     @ ''<p><strong>Condition:</strong> '' @ q_condition (soa_query d) @ ''</p>''
     @ ''<p><strong>Phase:</strong> '' @ or_else (q_phase (soa_query d)) ''All phases'' @ ''</p>''
     @ ''<p><strong>Trials Analyzed:</strong> '' @ num (trials_analyzed (soa_query d)) @ ''</p>''
     @ ''</div>''
     @ (case reference_trials d of None \<Rightarrow> '''' | Some rts \<Rightarrow>
          if length rts > 0 then ''<div style="background: white; padding: 15px; border-radius: 5px; margin-bottom: 15px; border-left: 4px solid #f7b731;">''
            @ ''<h3 style="color: #f7b731; font-size: 16px; margin-bottom: 10px;">&#x1F4DA; Reference Trials</h3>''
            @ ''<ul style="margin: 0; padding-left: 20px;">''
            @ concat (map soa_reference_html (take 5 rts))
            @ ''</ul></div>''
          else '''')
     @ concat (map soa_agent_html (soa_agent_analyses d))
     @ ''<div style="background: white; padding: 15px; border-radius: 5px; margin-bottom: 15px; border-left: 4px solid #d4af37; line-height: 1.8;">''
     @ ''<h3 style="color: #d4af37; font-size: 16px; margin-bottom: 10px;">&#x1F4CB; Complete Schedule of Assessments</h3>''
     @ replace_all ''<p>'' p_spaced (complete_soa d)
     @ ''</div>''
     @ ''<div style="text-align: right; margin-top: 15px;"><button onclick="downloadReportAsPDF('soaResult', 'SoA-Report')" style="padding: 10px 20px; background: #f7b731; color: white; border: none; border-radius: 5px; cursor: pointer; font-weight: bold;">&#x1F4E5; Download as PDF</button></div>''\<close>

text \<open>The six handlers. Each one is \<open>try { ... } catch (error) { showAgentError(..., error.message) }
  finally { btn.disabled = false }\<close> around one request.\<close>

definition runAgenticSearch_begin :: "state \<Rightarrow> state \<times> request option" where
  "runAgenticSearch_begin s =
     (let query0 = trim (value_of (byId s ''agenticSearchQuery''))
      in if query0 = [] then (alert ''Please enter a search query'' s, None)
         else
           (let s1 = upd ''agenticSearchBtn'' (\<lambda>e. e\<lparr>disabled := True\<rparr>) s;
                s2 = showAgentLoading ''agenticSearchResult'' s1
            in (s2, Some (AgenticSearch query0))))"

definition runAgenticSearch_finish :: "agentic_search agent_data reply \<Rightarrow> state \<Rightarrow> state" where
  "runAgenticSearch_finish r s =
     (let s1 =
            (case r of
               Rejected m \<Rightarrow> showAgentError ''agenticSearchResult'' m s
             | Response ok (Inl m) \<Rightarrow> showAgentError ''agenticSearchResult'' m s
             | Response ok (Inr data) \<Rightarrow>
                 if success data
                 then upd ''agenticSearchResult'' (\<lambda>e. e\<lparr>content := Html (agenticSearch_html (payload data))\<rparr>) s
                 else showAgentError ''agenticSearchResult'' (or_else (error data) ''Unknown error'') s)
      in upd ''agenticSearchBtn'' (\<lambda>e. e\<lparr>disabled := False\<rparr>) s1)"

definition runMultiAgentAnalysis_begin :: "state \<Rightarrow> state \<times> request option" where
  "runMultiAgentAnalysis_begin s =
     (let nctId0 = trim (value_of (byId s ''analysisNctId''))
      in if nctId0 = [] then (alert ''Please enter an NCT ID'' s, None)
         else
           (let s1 = upd ''analysisBtn'' (\<lambda>e. e\<lparr>disabled := True\<rparr>) s;
                s2 = showAgentLoading ''analysisResult'' s1
            in (s2, Some (MultiAgentAnalysis nctId0))))"

definition runMultiAgentAnalysis_finish :: "analysis agent_data reply \<Rightarrow> state \<Rightarrow> state" where
  "runMultiAgentAnalysis_finish r s =
     (let s1 =
            (case r of
               Rejected m \<Rightarrow> showAgentError ''analysisResult'' m s
             | Response ok (Inl m) \<Rightarrow> showAgentError ''analysisResult'' m s
             | Response ok (Inr data) \<Rightarrow>
                 if success data
                 then upd ''analysisResult'' (\<lambda>e. e\<lparr>content := Html (analysis_html (payload data))\<rparr>) s
                 else showAgentError ''analysisResult'' (or_else (error data) ''Unknown error'') s)
      in upd ''analysisBtn'' (\<lambda>e. e\<lparr>disabled := False\<rparr>) s1)"

definition runTrialComparison_begin :: "state \<Rightarrow> state \<times> request option" where
  "runTrialComparison_begin s =
     (let nct1 = trim (value_of (byId s ''compareNct1''));
          nct2 = trim (value_of (byId s ''compareNct2''));
          nct3 = trim (value_of (byId s ''compareNct3''))
      in if nct1 = [] \<or> nct2 = [] then (alert ''Please enter at least 2 NCT IDs'' s, None)
         else
           (let s1 = upd ''compareBtn'' (\<lambda>e. e\<lparr>disabled := True\<rparr>) s;
                s2 = showAgentLoading ''compareResult'' s1
            in (s2, Some (CompareTrials ([nct1, nct2] @ (if nct3 \<noteq> [] then [nct3] else []))))))"

definition runTrialComparison_finish :: "comparison agent_data reply \<Rightarrow> state \<Rightarrow> state" where
  "runTrialComparison_finish r s =
     (let s1 =
            (case r of
               Rejected m \<Rightarrow> showAgentError ''compareResult'' m s
             | Response ok (Inl m) \<Rightarrow> showAgentError ''compareResult'' m s
             | Response ok (Inr data) \<Rightarrow>
                 if success data
                 then upd ''compareResult'' (\<lambda>e. e\<lparr>content := Html (compare_html (payload data))\<rparr>) s
                 else showAgentError ''compareResult'' (or_else (error data) ''Unknown error'') s)
      in upd ''compareBtn'' (\<lambda>e. e\<lparr>disabled := False\<rparr>) s1)"

definition runAmendmentRisk_begin :: "state \<Rightarrow> state \<times> request option" where
  "runAmendmentRisk_begin s =
     (let nctId0 = trim (value_of (byId s ''amendmentNctId''))
      in if nctId0 = [] then (alert ''Please enter an NCT ID'' s, None)
         else
           (let s1 = upd ''amendmentBtn'' (\<lambda>e. e\<lparr>disabled := True\<rparr>) s;
                s2 = showAgentLoading ''amendmentResult'' s1
            in (s2, Some (AmendmentRisk nctId0))))"

definition runAmendmentRisk_finish :: "amendment agent_data reply \<Rightarrow> state \<Rightarrow> state" where
  "runAmendmentRisk_finish r s =
     (let s1 =
            (case r of
               Rejected m \<Rightarrow> showAgentError ''amendmentResult'' m s
             | Response ok (Inl m) \<Rightarrow> showAgentError ''amendmentResult'' m s
             | Response ok (Inr data) \<Rightarrow>
                 if success data
                 then upd ''amendmentResult'' (\<lambda>e. e\<lparr>content := Html (amendment_html (payload data))\<rparr>) s
                 else showAgentError ''amendmentResult'' (or_else (error data) ''Unknown error'') s)
      in upd ''amendmentBtn'' (\<lambda>e. e\<lparr>disabled := False\<rparr>) s1)"

definition runDesignPatterns_begin :: "state \<Rightarrow> state \<times> request option" where
  "runDesignPatterns_begin s =
     (let condition0 = trim (value_of (byId s ''patternCondition''));
          phase0 = value_of (byId s ''patternPhase'');
          interventionType = trim (value_of (byId s ''patternIntervention''))
      in if condition0 = [] then (alert ''Please enter a condition'' s, None)
         else
           (let s1 = upd ''patternBtn'' (\<lambda>e. e\<lparr>disabled := True\<rparr>) s;
                s2 = showAgentLoading ''patternResult'' s1
            in (s2, Some (DesignPatterns condition0 (or_null phase0) (or_null interventionType)))))"

definition runDesignPatterns_finish :: "design_patterns agent_data reply \<Rightarrow> state \<Rightarrow> state" where
  "runDesignPatterns_finish r s =
     (let s1 =
            (case r of
               Rejected m \<Rightarrow> showAgentError ''patternResult'' m s
             | Response ok (Inl m) \<Rightarrow> showAgentError ''patternResult'' m s
             | Response ok (Inr data) \<Rightarrow>
                 if success data
                 then upd ''patternResult'' (\<lambda>e. e\<lparr>content := Html (pattern_html (payload data))\<rparr>) s
                 else showAgentError ''patternResult'' (or_else (error data) ''Unknown error'') s)
      in upd ''patternBtn'' (\<lambda>e. e\<lparr>disabled := False\<rparr>) s1)"

definition runSoAComposer_begin :: "state \<Rightarrow> state \<times> request option" where
  "runSoAComposer_begin s =
     (let condition0 = trim (value_of (byId s ''soaCondition''));
          phase0 = value_of (byId s ''soaPhase'');
          interventionType = trim (value_of (byId s ''soaIntervention''))
      in if condition0 = [] then (alert ''Please enter a condition'' s, None)
         else
           (let s1 = upd ''soaBtn'' (\<lambda>e. e\<lparr>disabled := True\<rparr>) s;
                s2 = showAgentLoading ''soaResult'' s1
            in (s2, Some (SoAComposer condition0 (or_null phase0) (or_null interventionType)))))"

definition runSoAComposer_finish :: "soa agent_data reply \<Rightarrow> state \<Rightarrow> state" where
  "runSoAComposer_finish r s =
     (let s1 =
            (case r of
               Rejected m \<Rightarrow> showAgentError ''soaResult'' m s
             | Response ok (Inl m) \<Rightarrow> showAgentError ''soaResult'' m s
             | Response ok (Inr data) \<Rightarrow>
                 if success data
                 then upd ''soaResult'' (\<lambda>e. e\<lparr>content := Html (soa_html (payload data))\<rparr>) s
                 else showAgentError ''soaResult'' (or_else (error data) ''Unknown error'') s)
      in upd ''soaBtn'' (\<lambda>e. e\<lparr>disabled := False\<rparr>) s1)"

section \<open>Example pages\<close>

text \<open>A page whose elements are all empty \<open>div\<close>s, as it is before the first search; the
  same page with its forms filled in and a study chat open; and states reached from
  these by the handlers.\<close>

definition blank :: element where
  "blank = \<lparr>tag = ''div'', etype = '''', ename = '''', val = '''', checked = False,
            disabled = False, options = [], display = '''', classList = [],
            content = Text ''''\<rparr>"

definition text_input :: "string \<Rightarrow> element" where
  "text_input v = blank\<lparr>tag := ''input'', etype := ''text'', val := v\<rparr>"

definition page0 :: state where
  "page0 =
     \<lparr>currentChatStudy = None, currentPage = 1, totalPages = 1, currentFilters = None,
      totalResults = 0, isAdvancedMode = False,
      byId = (\<lambda>i. blank),
      others = [], chatMessages = [], sidebarChatMessages = [sidebar_placeholder],
      resultsContainer = Inl '''', pagination = [], alerts = []\<rparr>"

definition ready :: state where
  "ready =
     page0\<lparr>currentChatStudy := Some ''NCT001'',
           currentFilters := Some (getFilters page0),
           byId := (\<lambda>i. if i \<in> {''chatInput'', ''sidebarChatInput'', ''agenticSearchQuery'',
                                   ''analysisNctId'', ''compareNct1'', ''compareNct2'',
                                   ''amendmentNctId'', ''patternCondition'', ''soaCondition'',
                                   ''protocolCondition''}
                         then text_input '' NCT002 '' else blank),
           chatMessages := [chat_placeholder ''A study'']\<rparr>"

text \<open>A reply of three pages, and the page after the third of them was requested and
  shown.\<close>

definition three_pages :: search_data where
  "three_pages =
     \<lparr>error = None, total_pages = 3, total = 21, searchType = None,
      results = [\<lparr>st_nctId = ''NCT003'', briefTitle = Some ''A trial'',
                  overallStatus = ''COMPLETED'', st_studyType = ''INTERVENTIONAL'',
                  phases = Some [''PHASE2''], leadSponsorName = None, st_hasResults = False\<rparr>]\<rparr>"

definition last_page :: state where
  "last_page =
     searchStudies_finish num (Response True (Inr three_pages))
       (fst (searchStudies_begin (Some 3) page0))"

text \<open>An answered question in the study chat, and a page on which both chats wait for
  their reply.\<close>

definition an_answer :: chat_data where
  "an_answer = \<lparr>error = None, answer = Some ''It is.'', info = None\<rparr>"

definition talk :: state where
  "talk =
     fst (sendMessage_finish 12 ''msg-11'' (Response True (Inr an_answer))
            (fst (sendMessage_begin 10 11 ready)))"

definition waiting :: state where
  "waiting = fst (sendSidebarMessage_begin 10 11 (fst (sendMessage_begin 10 11 ready)))"

text \<open>Replies whose body carries an \<open>error\<close> field.\<close>

definition refused :: "'p \<Rightarrow> 'p agent_data" where
  "refused p = \<lparr>error = Some ''Trial not found'', success = False, payload = p\<rparr>"

definition refused_chat :: chat_data where
  "refused_chat = \<lparr>error = Some ''Trial not found'', answer = None, info = None\<rparr>"

definition refused_report :: protocol_data where
  "refused_report = \<lparr>error = Some ''Trial not found'', report = []\<rparr>"

definition refused_search :: search_data where
  "refused_search =
     \<lparr>error = Some ''Invalid date range'', total_pages = 0, total = 0, searchType = None,
      results = []\<rparr>"

definition no_trial :: trial where
  "no_trial = \<lparr>nct_id = [], trial_title = []\<rparr>"

definition no_query :: query where
  "no_query = \<lparr>q_condition = [], q_phase = None, trials_analyzed = 0\<rparr>"

definition empty_agentic_search :: agentic_search where
  "empty_agentic_search =
     \<lparr>synonyms = [], related_terms = [], abbreviations = [], boolean_strategy = [],
      priority_terms = [], enhanced_search_terms = []\<rparr>"

definition empty_analysis :: analysis where
  "empty_analysis = \<lparr>an_trial = no_trial, an_agent_analyses = [], executive_summary = []\<rparr>"

definition empty_comparison :: comparison where
  "empty_comparison =
     \<lparr>trials = [], eligibility = [], design = [], endpoints = [], strategic_synthesis = []\<rparr>"

definition empty_amendment :: amendment where
  "empty_amendment = \<lparr>am_trial = no_trial, am_agent_analyses = [], risk_assessment = []\<rparr>"

definition empty_design_patterns :: design_patterns where
  "empty_design_patterns =
     \<lparr>dp_query = no_query, trials_by_phase = None, dp_agent_analyses = [],
      strategic_insights = []\<rparr>"

definition empty_soa :: soa where
  "empty_soa =
     \<lparr>soa_query = no_query, reference_trials = None, soa_agent_analyses = [], complete_soa = []\<rparr>"

section \<open>The words of the specification\<close>

text \<open>The intervention filter: split the trimmed text on commas, trim each token, drop the
  empty tokens.\<close>

definition intervention_spec :: "string \<Rightarrow> string list" where
  "intervention_spec txt = filter (\<lambda>t. t \<noteq> []) (map trim (split_on (CHR '','') (trim txt)))"

text \<open>The page cursor lies within the pages that the server reported.\<close>

definition in_bounds :: "state \<Rightarrow> bool" where
  "in_bounds s = (1 \<le> currentPage s \<and> currentPage s \<le> totalPages s)"

section \<open>Properties\<close>

subsection \<open>Trimming\<close>

lemma trim_Nil [simp]: "trim [] = []"
  by (simp add: trim_def)

lemma trim_all_space:
  assumes "list_all is_space x"
  shows "trim x = []"
proof -
  from assms have e: "dropWhile is_space x = []"
    by (simp add: list_all_iff dropWhile_eq_Nil_conv)
  show ?thesis unfolding trim_def e by simp
qed

lemma trim_nonempty_ends:
  assumes "trim x \<noteq> []"
  shows "\<not> is_space (hd (trim x))" and "\<not> is_space (last (trim x))"
proof -
  let ?y = "dropWhile is_space x"
  let ?z = "dropWhile is_space (rev ?y)"
  from assms have z: "?z \<noteq> []" by (simp add: trim_def)
  have y: "?y \<noteq> []"
  proof
    assume e: "?y = []"
    have "?z = []" unfolding e by simp
    with z show False by simp
  qed
  have "last (trim x) = hd ?z" using z by (simp add: trim_def last_rev)
  moreover have "\<not> is_space (hd ?z)" using z by (rule hd_dropWhile)
  ultimately show "\<not> is_space (last (trim x))" by simp
  have "rev ?y = takeWhile is_space (rev ?y) @ ?z" by simp
  then have "last (rev ?y) = last ?z" using z by (metis last_appendR)
  then have "last ?z = hd ?y" using y by (simp add: last_rev)
  moreover have "hd (trim x) = last ?z" using z by (simp add: trim_def hd_rev)
  moreover have "\<not> is_space (hd ?y)" using y by (rule hd_dropWhile)
  ultimately show "\<not> is_space (hd (trim x))" by simp
qed

subsection \<open>What each step leaves alone\<close>

lemma upd_frame [simp]:
  "currentChatStudy (upd i f s) = currentChatStudy s"
  "currentPage (upd i f s) = currentPage s"
  "totalPages (upd i f s) = totalPages s"
  "currentFilters (upd i f s) = currentFilters s"
  "totalResults (upd i f s) = totalResults s"
  "isAdvancedMode (upd i f s) = isAdvancedMode s"
  "others (upd i f s) = others s"
  "chatMessages (upd i f s) = chatMessages s"
  "sidebarChatMessages (upd i f s) = sidebarChatMessages s"
  "resultsContainer (upd i f s) = resultsContainer s"
  "pagination (upd i f s) = pagination s"
  "alerts (upd i f s) = alerts s"
  "byId (upd i f s) j = (if j = i then f (byId s i) else byId s j)"
  by (simp_all add: upd_def)

lemma alert_frame [simp]:
  "currentChatStudy (alert m s) = currentChatStudy s"
  "currentPage (alert m s) = currentPage s"
  "totalPages (alert m s) = totalPages s"
  "currentFilters (alert m s) = currentFilters s"
  "totalResults (alert m s) = totalResults s"
  "isAdvancedMode (alert m s) = isAdvancedMode s"
  "byId (alert m s) = byId s"
  "others (alert m s) = others s"
  "chatMessages (alert m s) = chatMessages s"
  "sidebarChatMessages (alert m s) = sidebarChatMessages s"
  "resultsContainer (alert m s) = resultsContainer s"
  "pagination (alert m s) = pagination s"
  "alerts (alert m s) = alerts s @ [m]"
  by (simp_all add: alert_def)

lemma displayResults_frame [simp]:
  "currentChatStudy (displayResults d s) = currentChatStudy s"
  "currentPage (displayResults d s) = currentPage s"
  "totalPages (displayResults d s) = totalPages s"
  "currentFilters (displayResults d s) = currentFilters s"
  "totalResults (displayResults d s) = totalResults s"
  "isAdvancedMode (displayResults d s) = isAdvancedMode s"
  "byId (displayResults d s) = byId s"
  "others (displayResults d s) = others s"
  "chatMessages (displayResults d s) = chatMessages s"
  "sidebarChatMessages (displayResults d s) = sidebarChatMessages s"
  "pagination (displayResults d s) = pagination s"
  "alerts (displayResults d s) = alerts s"
  by (simp_all add: displayResults_def)

lemma displayPagination_frame [simp]:
  "currentChatStudy (displayPagination s) = currentChatStudy s"
  "currentPage (displayPagination s) = currentPage s"
  "totalPages (displayPagination s) = totalPages s"
  "currentFilters (displayPagination s) = currentFilters s"
  "totalResults (displayPagination s) = totalResults s"
  "isAdvancedMode (displayPagination s) = isAdvancedMode s"
  "byId (displayPagination s) = byId s"
  "others (displayPagination s) = others s"
  "chatMessages (displayPagination s) = chatMessages s"
  "sidebarChatMessages (displayPagination s) = sidebarChatMessages s"
  "resultsContainer (displayPagination s) = resultsContainer s"
  "alerts (displayPagination s) = alerts s"
  by (simp_all add: displayPagination_def Let_def)

lemma showAgentLoading_frame [simp]:
  "currentChatStudy (showAgentLoading i s) = currentChatStudy s"
  "currentPage (showAgentLoading i s) = currentPage s"
  "totalPages (showAgentLoading i s) = totalPages s"
  "currentFilters (showAgentLoading i s) = currentFilters s"
  "totalResults (showAgentLoading i s) = totalResults s"
  "isAdvancedMode (showAgentLoading i s) = isAdvancedMode s"
  "others (showAgentLoading i s) = others s"
  "chatMessages (showAgentLoading i s) = chatMessages s"
  "sidebarChatMessages (showAgentLoading i s) = sidebarChatMessages s"
  "resultsContainer (showAgentLoading i s) = resultsContainer s"
  "pagination (showAgentLoading i s) = pagination s"
  "alerts (showAgentLoading i s) = alerts s"
  by (simp_all add: showAgentLoading_def)

lemma showAgentError_frame [simp]:
  "currentChatStudy (showAgentError i m s) = currentChatStudy s"
  "currentPage (showAgentError i m s) = currentPage s"
  "totalPages (showAgentError i m s) = totalPages s"
  "currentFilters (showAgentError i m s) = currentFilters s"
  "totalResults (showAgentError i m s) = totalResults s"
  "isAdvancedMode (showAgentError i m s) = isAdvancedMode s"
  "others (showAgentError i m s) = others s"
  "chatMessages (showAgentError i m s) = chatMessages s"
  "sidebarChatMessages (showAgentError i m s) = sidebarChatMessages s"
  "resultsContainer (showAgentError i m s) = resultsContainer s"
  "pagination (showAgentError i m s) = pagination s"
  "alerts (showAgentError i m s) = alerts s"
  "byId (showAgentError i m s) j = (if j = i then (byId s i)\<lparr>content := Html (error_box m), display := ''block''\<rparr> else byId s j)"
  by (simp_all add: showAgentError_def)

lemma addModalMessage_frame [simp]:
  "currentChatStudy (snd (addModalMessage now txt ty s)) = currentChatStudy s"
  "currentPage (snd (addModalMessage now txt ty s)) = currentPage s"
  "totalPages (snd (addModalMessage now txt ty s)) = totalPages s"
  "currentFilters (snd (addModalMessage now txt ty s)) = currentFilters s"
  "totalResults (snd (addModalMessage now txt ty s)) = totalResults s"
  "isAdvancedMode (snd (addModalMessage now txt ty s)) = isAdvancedMode s"
  "byId (snd (addModalMessage now txt ty s)) = byId s"
  "others (snd (addModalMessage now txt ty s)) = others s"
  "sidebarChatMessages (snd (addModalMessage now txt ty s)) = sidebarChatMessages s"
  "resultsContainer (snd (addModalMessage now txt ty s)) = resultsContainer s"
  "pagination (snd (addModalMessage now txt ty s)) = pagination s"
  "alerts (snd (addModalMessage now txt ty s)) = alerts s"
  "chatMessages (snd (addModalMessage now txt ty s)) = chatMessages s @ [bubble (''msg-'' @ dec now) txt ty]"
  "fst (addModalMessage now txt ty s) = ''msg-'' @ dec now"
  by (simp_all add: addModalMessage_def Let_def)

lemma addSidebarMessage_frame [simp]:
  "currentChatStudy (snd (addSidebarMessage now txt ty s)) = currentChatStudy s"
  "currentPage (snd (addSidebarMessage now txt ty s)) = currentPage s"
  "totalPages (snd (addSidebarMessage now txt ty s)) = totalPages s"
  "currentFilters (snd (addSidebarMessage now txt ty s)) = currentFilters s"
  "totalResults (snd (addSidebarMessage now txt ty s)) = totalResults s"
  "isAdvancedMode (snd (addSidebarMessage now txt ty s)) = isAdvancedMode s"
  "byId (snd (addSidebarMessage now txt ty s)) = byId s"
  "others (snd (addSidebarMessage now txt ty s)) = others s"
  "chatMessages (snd (addSidebarMessage now txt ty s)) = chatMessages s"
  "resultsContainer (snd (addSidebarMessage now txt ty s)) = resultsContainer s"
  "pagination (snd (addSidebarMessage now txt ty s)) = pagination s"
  "alerts (snd (addSidebarMessage now txt ty s)) = alerts s"
  "sidebarChatMessages (snd (addSidebarMessage now txt ty s)) = remove_class ''chat-placeholder'' (sidebarChatMessages s) @ [bubble (''sidebar-msg-'' @ dec now) txt ty]"
  "fst (addSidebarMessage now txt ty s) = ''sidebar-msg-'' @ dec now"
  by (simp_all add: addSidebarMessage_def Let_def)

subsection \<open>The example pages, evaluated\<close>

lemma ready_inputs:
  "trim (value_of (byId ready i)) =
     (if i \<in> {''chatInput'', ''sidebarChatInput'', ''agenticSearchQuery'', ''analysisNctId'',
                ''compareNct1'', ''compareNct2'', ''amendmentNctId'', ''patternCondition'',
                ''soaCondition'', ''protocolCondition''} then ''NCT002'' else [])"
  by (simp add: ready_def page0_def text_input_def blank_def value_of_def trim_def is_space_def)

lemma num_small: "num 1 = ''1''" "num 2 = ''2''" "num 3 = ''3''"
  by code_simp+

lemma dec_small: "dec 10 = ''10''" "dec 11 = ''11''" "dec 12 = ''12''"
  by code_simp+

lemma displayPagination_cong:
  "currentPage s = currentPage t \<Longrightarrow> totalPages s = totalPages t \<Longrightarrow>
     pagination (displayPagination s) = pagination (displayPagination t)"
  by (simp add: displayPagination_def Let_def)

lemma bar_after_search:
  "pagination (searchStudies_finish loc (Response True (Inr d)) s)
     = pagination (displayPagination (s\<lparr>totalPages := total_pages d\<rparr>))"
  "currentPage (searchStudies_finish loc (Response True (Inr d)) s) = currentPage s"
  "totalPages (searchStudies_finish loc (Response True (Inr d)) s) = total_pages d"
proof -
  show "pagination (searchStudies_finish loc (Response True (Inr d)) s)
     = pagination (displayPagination (s\<lparr>totalPages := total_pages d\<rparr>))"
    unfolding searchStudies_finish_def Let_def
    by (auto intro!: displayPagination_cong)
  show "currentPage (searchStudies_finish loc (Response True (Inr d)) s) = currentPage s"
    "totalPages (searchStudies_finish loc (Response True (Inr d)) s) = total_pages d"
    unfolding searchStudies_finish_def Let_def by simp_all
qed

lemma last_page_bar:
  "currentPage last_page = 3" "totalPages last_page = 3"
  "pagination last_page =
     [\<lparr>label = [CHR 0xAB] @ '' Previous'', pdisabled = False, pclass = '''', onclick = Prev\<rparr>,
      \<lparr>label = ''1'', pdisabled = False, pclass = '''', onclick = Goto 1\<rparr>,
      \<lparr>label = ''2'', pdisabled = False, pclass = '''', onclick = Goto 2\<rparr>,
      \<lparr>label = ''3'', pdisabled = False, pclass = ''active'', onclick = Goto 3\<rparr>,
      \<lparr>label = ''Next '' @ [CHR 0xBB], pdisabled = True, pclass = '''', onclick = Next\<rparr>]"
proof -
  have u: "[1..3] = [1, 2, 3::int]" by (simp add: upto.simps)
  show "currentPage last_page = 3" "totalPages last_page = 3"
    by (simp_all add: last_page_def bar_after_search three_pages_def searchStudies_begin_def Let_def)
  show "pagination last_page =
     [\<lparr>label = [CHR 0xAB] @ '' Previous'', pdisabled = False, pclass = '''', onclick = Prev\<rparr>,
      \<lparr>label = ''1'', pdisabled = False, pclass = '''', onclick = Goto 1\<rparr>,
      \<lparr>label = ''2'', pdisabled = False, pclass = '''', onclick = Goto 2\<rparr>,
      \<lparr>label = ''3'', pdisabled = False, pclass = ''active'', onclick = Goto 3\<rparr>,
      \<lparr>label = ''Next '' @ [CHR 0xBB], pdisabled = True, pclass = '''', onclick = Next\<rparr>]"
    by (simp add: last_page_def bar_after_search three_pages_def searchStudies_begin_def
        displayPagination_def Let_def u num_small)
qed

lemma talk_transcript:
  "chatMessages talk =
     [chat_placeholder ''A study'', bubble ''msg-10'' ''NCT002'' ''user'',
      bubble ''msg-12'' ''It is.'' ''assistant'']"
proof -
  have w: "chatMessages (fst (sendMessage_begin 10 11 ready)) =
      [chat_placeholder ''A study'', bubble ''msg-10'' ''NCT002'' ''user'',
       bubble ''msg-11'' ''Analyzing study data...'' ''loading'']"
    by (simp add: sendMessage_begin_def ready_inputs Let_def split_beta truthy_def dec_small)
       (simp add: ready_def page0_def)
  have x: "remove_id ''msg-11'' (chatMessages (fst (sendMessage_begin 10 11 ready))) =
      Some [chat_placeholder ''A study'', bubble ''msg-10'' ''NCT002'' ''user'']"
    unfolding w by (simp add: bubble_def chat_placeholder_def)
  show ?thesis
    by (simp add: talk_def sendMessage_finish_def x Let_def an_answer_def truthy_def str_def dec_small)
qed

lemma waiting_transcripts:
  "remove_id ''msg-11'' (chatMessages waiting)
     = Some [chat_placeholder ''A study'', bubble ''msg-10'' ''NCT002'' ''user'']"
  "remove_id ''sidebar-msg-11'' (sidebarChatMessages waiting)
     = Some [bubble ''sidebar-msg-10'' ''NCT002'' ''user'']"
proof -
  have f: "currentFilters (fst (sendMessage_begin 10 11 ready)) \<noteq> None"
    "trim (value_of (byId (fst (sendMessage_begin 10 11 ready)) ''sidebarChatInput'')) = ''NCT002''"
    "sidebarChatMessages (fst (sendMessage_begin 10 11 ready)) = [sidebar_placeholder]"
    "chatMessages (fst (sendMessage_begin 10 11 ready)) =
      [chat_placeholder ''A study'', bubble ''msg-10'' ''NCT002'' ''user'',
       bubble ''msg-11'' ''Analyzing study data...'' ''loading'']"
    by (simp_all add: sendMessage_begin_def ready_inputs Let_def split_beta truthy_def dec_small)
       (simp_all add: ready_def page0_def)
  have p: "has_class ''chat-placeholder'' sidebar_placeholder"
    "\<not> has_class ''chat-placeholder'' (bubble i x ''user'')" for i x
    by (simp_all add: has_class_def sidebar_placeholder_def bubble_def)
  show "remove_id ''msg-11'' (chatMessages waiting)
     = Some [chat_placeholder ''A study'', bubble ''msg-10'' ''NCT002'' ''user'']"
    using f by (simp add: waiting_def sendSidebarMessage_begin_def Let_def split_beta
        bubble_def chat_placeholder_def)
  show "remove_id ''sidebar-msg-11'' (sidebarChatMessages waiting)
     = Some [bubble ''sidebar-msg-10'' ''NCT002'' ''user'']"
    using f p by (simp add: waiting_def sendSidebarMessage_begin_def Let_def split_beta dec_small)
       (simp add: bubble_def)
qed

subsection \<open>Trigger controls while a request is in flight\<close>

lemma sidebar_brackets:
  "(snd (sendSidebarMessage_begin n1 n2 s) \<noteq> None \<longrightarrow>
     disabled (byId (fst (sendSidebarMessage_begin n1 n2 s)) ''sidebarSendBtn'')
     \<and> disabled (byId (fst (sendSidebarMessage_begin n1 n2 s)) ''sidebarChatInput''))
   \<and> \<not> disabled (byId (fst (sendSidebarMessage_finish n lid r t)) ''sidebarSendBtn'')
   \<and> \<not> disabled (byId (fst (sendSidebarMessage_finish n lid r t)) ''sidebarChatInput'')"
  by (auto simp: sendSidebarMessage_begin_def sendSidebarMessage_finish_def addSidebarMessage_def
      upd_def Let_def split: prod.splits)

lemma agentic_brackets:
  "(snd (runAgenticSearch_begin s) \<noteq> None \<longrightarrow> disabled (byId (fst (runAgenticSearch_begin s)) ''agenticSearchBtn''))
   \<and> \<not> disabled (byId (runAgenticSearch_finish r t) ''agenticSearchBtn'')"
  by (simp add: runAgenticSearch_begin_def runAgenticSearch_finish_def showAgentLoading_def upd_def Let_def)

lemma analysis_brackets:
  "(snd (runMultiAgentAnalysis_begin s) \<noteq> None \<longrightarrow> disabled (byId (fst (runMultiAgentAnalysis_begin s)) ''analysisBtn''))
   \<and> \<not> disabled (byId (runMultiAgentAnalysis_finish r t) ''analysisBtn'')"
  by (simp add: runMultiAgentAnalysis_begin_def runMultiAgentAnalysis_finish_def showAgentLoading_def upd_def Let_def)

lemma compare_brackets:
  "(snd (runTrialComparison_begin s) \<noteq> None \<longrightarrow> disabled (byId (fst (runTrialComparison_begin s)) ''compareBtn''))
   \<and> \<not> disabled (byId (runTrialComparison_finish r t) ''compareBtn'')"
  by (simp add: runTrialComparison_begin_def runTrialComparison_finish_def showAgentLoading_def upd_def Let_def)

lemma amendment_brackets:
  "(snd (runAmendmentRisk_begin s) \<noteq> None \<longrightarrow> disabled (byId (fst (runAmendmentRisk_begin s)) ''amendmentBtn''))
   \<and> \<not> disabled (byId (runAmendmentRisk_finish r t) ''amendmentBtn'')"
  by (simp add: runAmendmentRisk_begin_def runAmendmentRisk_finish_def showAgentLoading_def upd_def Let_def)

lemma pattern_brackets:
  "(snd (runDesignPatterns_begin s) \<noteq> None \<longrightarrow> disabled (byId (fst (runDesignPatterns_begin s)) ''patternBtn''))
   \<and> \<not> disabled (byId (runDesignPatterns_finish r t) ''patternBtn'')"
  by (simp add: runDesignPatterns_begin_def runDesignPatterns_finish_def showAgentLoading_def upd_def Let_def)

lemma soa_brackets:
  "(snd (runSoAComposer_begin s) \<noteq> None \<longrightarrow> disabled (byId (fst (runSoAComposer_begin s)) ''soaBtn''))
   \<and> \<not> disabled (byId (runSoAComposer_finish r t) ''soaBtn'')"
  by (simp add: runSoAComposer_begin_def runSoAComposer_finish_def showAgentLoading_def upd_def Let_def)

lemma no_disabling:
  "disabled (byId (fst (searchStudies_begin pg s)) i) = disabled (byId s i)"
  "pagination (fst (searchStudies_begin pg s)) = pagination s"
  "disabled (byId (fst (sendMessage_begin n1 n2 s)) i) = disabled (byId s i)"
  "disabled (byId (fst (generateProtocolReport_begin s)) i) = disabled (byId s i)"
  by (simp_all add: searchStudies_begin_def sendMessage_begin_def generateProtocolReport_begin_def
      addModalMessage_def alert_def upd_def Let_def)

text \<open>
  Claim C1, as the code has it. Seven of the ten request-issuing handlers bracket their
  request: the sidebar chat disables its send button and its input field, and each of the
  six agent features disables its button, before the request is in flight; from whatever
  state the reply finds, and whether the reply is a body, a failed parse or a rejected
  \<open>fetch\<close>, the control is enabled again when the handler is done. The other three
  handlers (search, the chat of one study, the protocol report) issue their request and
  leave the \<open>disabled\<close> flag of every element, and the pagination bar, as they were.
\<close>

theorem trigger_disabled_while_in_flight:
  "(snd (sendSidebarMessage_begin n1 n2 s) \<noteq> None \<longrightarrow>
     disabled (byId (fst (sendSidebarMessage_begin n1 n2 s)) ''sidebarSendBtn'')
     \<and> disabled (byId (fst (sendSidebarMessage_begin n1 n2 s)) ''sidebarChatInput''))
   \<and> \<not> disabled (byId (fst (sendSidebarMessage_finish n lid r t)) ''sidebarSendBtn'')
   \<and> \<not> disabled (byId (fst (sendSidebarMessage_finish n lid r t)) ''sidebarChatInput'')
   \<and> (snd (runAgenticSearch_begin s) \<noteq> None \<longrightarrow> disabled (byId (fst (runAgenticSearch_begin s)) ''agenticSearchBtn''))
   \<and> \<not> disabled (byId (runAgenticSearch_finish r1 t) ''agenticSearchBtn'')
   \<and> (snd (runMultiAgentAnalysis_begin s) \<noteq> None \<longrightarrow> disabled (byId (fst (runMultiAgentAnalysis_begin s)) ''analysisBtn''))
   \<and> \<not> disabled (byId (runMultiAgentAnalysis_finish r2 t) ''analysisBtn'')
   \<and> (snd (runTrialComparison_begin s) \<noteq> None \<longrightarrow> disabled (byId (fst (runTrialComparison_begin s)) ''compareBtn''))
   \<and> \<not> disabled (byId (runTrialComparison_finish r3 t) ''compareBtn'')
   \<and> (snd (runAmendmentRisk_begin s) \<noteq> None \<longrightarrow> disabled (byId (fst (runAmendmentRisk_begin s)) ''amendmentBtn''))
   \<and> \<not> disabled (byId (runAmendmentRisk_finish r4 t) ''amendmentBtn'')
   \<and> (snd (runDesignPatterns_begin s) \<noteq> None \<longrightarrow> disabled (byId (fst (runDesignPatterns_begin s)) ''patternBtn''))
   \<and> \<not> disabled (byId (runDesignPatterns_finish r5 t) ''patternBtn'')
   \<and> (snd (runSoAComposer_begin s) \<noteq> None \<longrightarrow> disabled (byId (fst (runSoAComposer_begin s)) ''soaBtn''))
   \<and> \<not> disabled (byId (runSoAComposer_finish r6 t) ''soaBtn'')
   \<and> disabled (byId (fst (searchStudies_begin pg s)) i) = disabled (byId s i)
   \<and> pagination (fst (searchStudies_begin pg s)) = pagination s
   \<and> disabled (byId (fst (sendMessage_begin n1 n2 s)) i) = disabled (byId s i)
   \<and> disabled (byId (fst (generateProtocolReport_begin s)) i) = disabled (byId s i)"
  using sidebar_brackets [of n1 n2 s n lid r t]
    agentic_brackets [of s r1 t] analysis_brackets [of s r2 t] compare_brackets [of s r3 t] amendment_brackets [of s r4 t] pattern_brackets [of s r5 t] soa_brackets [of s r6 t]
    no_disabling
  by simp

text \<open>
  The theorem of C1 on the filled-in page: every guard lets the request through, the
  seven controls are disabled then, and enabled again after a rejected \<open>fetch\<close>.
\<close>

theorem trigger_disabled_while_in_flight_witness:
  "snd (sendSidebarMessage_begin 1 2 ready) \<noteq> None
   \<and> snd (runAgenticSearch_begin ready) \<noteq> None
   \<and> snd (runMultiAgentAnalysis_begin ready) \<noteq> None
   \<and> snd (runTrialComparison_begin ready) \<noteq> None
   \<and> snd (runAmendmentRisk_begin ready) \<noteq> None
   \<and> snd (runDesignPatterns_begin ready) \<noteq> None
   \<and> snd (runSoAComposer_begin ready) \<noteq> None
   \<and> disabled (byId (fst (sendSidebarMessage_begin 1 2 ready)) ''sidebarSendBtn'')
   \<and> disabled (byId (fst (sendSidebarMessage_begin 1 2 ready)) ''sidebarChatInput'')
   \<and> \<not> disabled (byId (fst (sendSidebarMessage_finish 3 ''sidebar-msg-2'' (Rejected ''Failed to fetch'') ready)) ''sidebarSendBtn'')
   \<and> disabled (byId (fst (runAgenticSearch_begin ready)) ''agenticSearchBtn'')
   \<and> \<not> disabled (byId (runAgenticSearch_finish (Rejected ''Failed to fetch'') ready) ''agenticSearchBtn'')
   \<and> disabled (byId (fst (runMultiAgentAnalysis_begin ready)) ''analysisBtn'')
   \<and> \<not> disabled (byId (runMultiAgentAnalysis_finish (Rejected ''Failed to fetch'') ready) ''analysisBtn'')
   \<and> disabled (byId (fst (runTrialComparison_begin ready)) ''compareBtn'')
   \<and> \<not> disabled (byId (runTrialComparison_finish (Rejected ''Failed to fetch'') ready) ''compareBtn'')
   \<and> disabled (byId (fst (runAmendmentRisk_begin ready)) ''amendmentBtn'')
   \<and> \<not> disabled (byId (runAmendmentRisk_finish (Rejected ''Failed to fetch'') ready) ''amendmentBtn'')
   \<and> disabled (byId (fst (runDesignPatterns_begin ready)) ''patternBtn'')
   \<and> \<not> disabled (byId (runDesignPatterns_finish (Rejected ''Failed to fetch'') ready) ''patternBtn'')
   \<and> disabled (byId (fst (runSoAComposer_begin ready)) ''soaBtn'')
   \<and> \<not> disabled (byId (runSoAComposer_finish (Rejected ''Failed to fetch'') ready) ''soaBtn'')"
proof -
  have f: "currentFilters ready \<noteq> None" by (simp add: ready_def page0_def)
  have h: "snd (sendSidebarMessage_begin 1 2 ready) \<noteq> None
     \<and> snd (runAgenticSearch_begin ready) \<noteq> None
     \<and> snd (runMultiAgentAnalysis_begin ready) \<noteq> None
     \<and> snd (runTrialComparison_begin ready) \<noteq> None
     \<and> snd (runAmendmentRisk_begin ready) \<noteq> None
     \<and> snd (runDesignPatterns_begin ready) \<noteq> None
     \<and> snd (runSoAComposer_begin ready) \<noteq> None"
    using f by (simp add: sendSidebarMessage_begin_def runAgenticSearch_begin_def runMultiAgentAnalysis_begin_def runTrialComparison_begin_def runAmendmentRisk_begin_def runDesignPatterns_begin_def runSoAComposer_begin_def ready_inputs Let_def split: prod.splits)
  from h trigger_disabled_while_in_flight [where s = ready and ?n1.0 = 1 and ?n2.0 = 2 and n = 3
      and lid = "''sidebar-msg-2''" and r = "Rejected ''Failed to fetch''" and t = ready
      and ?r1.0 = "Rejected ''Failed to fetch''" and ?r2.0 = "Rejected ''Failed to fetch''"
      and ?r3.0 = "Rejected ''Failed to fetch''" and ?r4.0 = "Rejected ''Failed to fetch''"
      and ?r5.0 = "Rejected ''Failed to fetch''" and ?r6.0 = "Rejected ''Failed to fetch''"]
  show ?thesis by simp
qed

text \<open>
  Claim C1 as stated fails for search. On the third of three pages the button
  \<open>Previous\<close> is enabled; a click on it puts a search request in flight and leaves the
  pagination bar, that button included, and every element of the page as it was.
\<close>

theorem search_keeps_trigger_enabled:
  "\<not> pdisabled (hd (pagination last_page))
   \<and> onclick (hd (pagination last_page)) = Prev
   \<and> click (hd (pagination last_page)) last_page = Some (searchStudies_begin (Some 2) last_page)
   \<and> pagination (fst (searchStudies_begin (Some 2) last_page)) = pagination last_page
   \<and> byId (fst (searchStudies_begin (Some 2) last_page)) = byId last_page"
  by (simp add: last_page_bar click_def resolve_def searchStudies_begin_def Let_def)

subsection \<open>The life of a transcript\<close>

lemma remove_id_first:
  "nid l = lid \<Longrightarrow> lid \<notin> nid ` set pre \<Longrightarrow> remove_id lid (pre @ l # post) = Some (pre @ post)"
  by (induction pre) auto

lemma remove_id_absent:
  "lid \<notin> nid ` set ns \<Longrightarrow> remove_id lid ns = None"
  by (induction ns) auto

lemma bubble_nid [simp]: "nid (bubble i x ty) = i"
  by (simp add: bubble_def)

lemma bubble_not_placeholder [simp]:
  "\<not> has_class ''chat-placeholder'' (bubble i x ''user'')"
  "\<not> has_class ''chat-placeholder'' (bubble i x ''loading'')"
  "\<not> has_class ''chat-placeholder'' (bubble i x ''assistant'')"
  by (simp_all add: has_class_def bubble_def)

lemma remove_class_snoc:
  "\<not> has_class c b \<Longrightarrow> remove_class c (xs @ [b]) = remove_class c xs @ [b]"
  by (induction xs) auto

lemma sendMessage_finish_removed:
  assumes "remove_id lid (chatMessages s) = Some ms"
  shows "\<exists>txt. chatMessages (fst (sendMessage_finish now lid r s))
           = ms @ [bubble (''msg-'' @ dec now) txt ''assistant'']"
  using assms
  by (auto simp: sendMessage_finish_def sendMessage_catch_def Let_def
      split: reply.splits sum.splits)

lemma sendMessage_finish_absent:
  assumes "remove_id lid (chatMessages s) = None"
  shows "chatMessages (fst (sendMessage_finish now lid r s)) = chatMessages s"
  using assms
  by (auto simp: sendMessage_finish_def sendMessage_catch_def Let_def
      split: reply.splits sum.splits)

lemma sendSidebarMessage_finish_removed:
  assumes "remove_id lid (sidebarChatMessages s) = Some ms"
  shows "\<exists>txt. sidebarChatMessages (fst (sendSidebarMessage_finish now lid r s))
           = remove_class ''chat-placeholder'' ms
             @ [bubble (''sidebar-msg-'' @ dec now) txt ''assistant'']"
  using assms
  by (auto simp: sendSidebarMessage_finish_def sendSidebarMessage_try_def
      sendSidebarMessage_catch_def Let_def split: reply.splits sum.splits prod.splits)

lemma sendSidebarMessage_finish_absent:
  assumes "remove_id lid (sidebarChatMessages s) = None"
  shows "sidebarChatMessages (fst (sendSidebarMessage_finish now lid r s)) = sidebarChatMessages s"
  using assms
  by (auto simp: sendSidebarMessage_finish_def sendSidebarMessage_try_def
      sendSidebarMessage_catch_def Let_def split: reply.splits sum.splits prod.splits)

lemma sendMessage_begin_appends:
  "snd (sendMessage_begin n1 n2 s) \<noteq> None \<Longrightarrow>
     chatMessages (fst (sendMessage_begin n1 n2 s))
       = chatMessages s
         @ [bubble (''msg-'' @ dec n1) (trim (value_of (byId s ''chatInput''))) ''user'',
            bubble (''msg-'' @ dec n2) ''Analyzing study data...'' ''loading'']"
  "snd (sendMessage_begin n1 n2 s) = None \<Longrightarrow>
     chatMessages (fst (sendMessage_begin n1 n2 s)) = chatMessages s"
  by (auto simp: sendMessage_begin_def Let_def split_beta split: if_splits)

lemma sendSidebarMessage_begin_appends:
  "snd (sendSidebarMessage_begin n1 n2 s) \<noteq> None \<Longrightarrow>
     sidebarChatMessages (fst (sendSidebarMessage_begin n1 n2 s))
       = remove_class ''chat-placeholder'' (remove_class ''chat-placeholder'' (sidebarChatMessages s))
         @ [bubble (''sidebar-msg-'' @ dec n1) (trim (value_of (byId s ''sidebarChatInput''))) ''user'',
            bubble (''sidebar-msg-'' @ dec n2)
              (''Analyzing '' @ (if isAdvancedMode s then ''ALL complete study data''
                                else ''essential study data'') @ '' from filtered studies...'')
              ''loading'']"
  "snd (sendSidebarMessage_begin n1 n2 s) = None \<Longrightarrow>
     sidebarChatMessages (fst (sendSidebarMessage_begin n1 n2 s)) = sidebarChatMessages s"
  by (auto simp: sendSidebarMessage_begin_def Let_def split_beta remove_class_snoc split: if_splits)

lemma waiting_chat:
  "chatMessages waiting =
     [chat_placeholder ''A study'', bubble ''msg-10'' ''NCT002'' ''user'']
     @ [bubble ''msg-11'' ''Analyzing study data...'' ''loading''] @ []"
  "sidebarChatMessages waiting =
     [bubble ''sidebar-msg-10'' ''NCT002'' ''user'']
     @ [bubble ''sidebar-msg-11'' ''Analyzing essential study data from filtered studies...'' ''loading''] @ []"
proof -
  have f: "currentFilters (fst (sendMessage_begin 10 11 ready)) \<noteq> None"
    "trim (value_of (byId (fst (sendMessage_begin 10 11 ready)) ''sidebarChatInput'')) = ''NCT002''"
    "sidebarChatMessages (fst (sendMessage_begin 10 11 ready)) = [sidebar_placeholder]"
    "\<not> isAdvancedMode (fst (sendMessage_begin 10 11 ready))"
    "chatMessages (fst (sendMessage_begin 10 11 ready)) =
      [chat_placeholder ''A study'', bubble ''msg-10'' ''NCT002'' ''user'',
       bubble ''msg-11'' ''Analyzing study data...'' ''loading'']"
    by (simp_all add: sendMessage_begin_def ready_inputs Let_def split_beta truthy_def dec_small)
       (simp_all add: ready_def page0_def)
  have p: "has_class ''chat-placeholder'' sidebar_placeholder"
    by (simp add: has_class_def sidebar_placeholder_def)
  show "chatMessages waiting =
     [chat_placeholder ''A study'', bubble ''msg-10'' ''NCT002'' ''user'']
     @ [bubble ''msg-11'' ''Analyzing study data...'' ''loading''] @ []"
    using f by (simp add: waiting_def sendSidebarMessage_begin_def Let_def split_beta)
  show "sidebarChatMessages waiting =
     [bubble ''sidebar-msg-10'' ''NCT002'' ''user'']
     @ [bubble ''sidebar-msg-11'' ''Analyzing essential study data from filtered studies...'' ''loading''] @ []"
    using f p by (simp add: waiting_def sendSidebarMessage_begin_def Let_def split_beta dec_small)
qed

lemma waiting_ids:
  "''msg-11'' \<notin> nid ` set [chat_placeholder ''A study'', bubble ''msg-10'' ''NCT002'' ''user'']"
  "''sidebar-msg-11'' \<notin> nid ` set [bubble ''sidebar-msg-10'' ''NCT002'' ''user'']"
  by (simp_all add: chat_placeholder_def)

text \<open>
  Claim C2, as the code has it. The transcript of the study chat is replaced by the
  placeholder when the modal is opened; closing the modal leaves it as it is. The
  transcript of the sidebar chat is replaced by its placeholder when the filters are
  cleared. Neither reset touches the other transcript. In between, the send handlers
  append and take out nothing but the loading bubble and, in the sidebar, the
  placeholder: a question that passes the guard appends its bubble and the loading
  bubble, after the placeholder is taken out in the sidebar; a question that does not
  pass leaves the transcript as it is. When the reply comes and the loading bubble is
  the first entry of the transcript that carries its id, that bubble is taken out, the
  entries before and after it stay in their order, and one bubble of the assistant is
  appended at the end; when no entry carries the id, the transcript stays as it is.
\<close>

theorem transcript_lifecycle:
  "chatMessages (closeChatModal s) = chatMessages s
   \<and> chatMessages (openChatModal nct ttl s) = [chat_placeholder ttl]
   \<and> sidebarChatMessages (clearFilters s) = [sidebar_placeholder]
   \<and> sidebarChatMessages (openChatModal nct ttl s) = sidebarChatMessages s
   \<and> sidebarChatMessages (closeChatModal s) = sidebarChatMessages s
   \<and> chatMessages (clearFilters s) = chatMessages s
   \<and> prefix (chatMessages s) (chatMessages (fst (sendMessage_begin n1 n2 s)))
   \<and> (snd (sendMessage_begin n1 n2 s) \<noteq> None \<longrightarrow>
        chatMessages (fst (sendMessage_begin n1 n2 s))
          = chatMessages s
            @ [bubble (''msg-'' @ dec n1) (trim (value_of (byId s ''chatInput''))) ''user'',
               bubble (''msg-'' @ dec n2) ''Analyzing study data...'' ''loading''])
   \<and> (chatMessages s = pre @ [bubble lid ltxt ''loading''] @ post \<and> lid \<notin> nid ` set pre \<longrightarrow>
        (\<exists>txt. chatMessages (fst (sendMessage_finish n3 lid r s))
           = pre @ post @ [bubble (''msg-'' @ dec n3) txt ''assistant'']))
   \<and> (lid \<notin> nid ` set (chatMessages s) \<longrightarrow>
        chatMessages (fst (sendMessage_finish n3 lid r s)) = chatMessages s)
   \<and> (snd (sendSidebarMessage_begin n1 n2 s) \<noteq> None \<longrightarrow>
        sidebarChatMessages (fst (sendSidebarMessage_begin n1 n2 s))
          = remove_class ''chat-placeholder''
              (remove_class ''chat-placeholder'' (sidebarChatMessages s))
            @ [bubble (''sidebar-msg-'' @ dec n1) (trim (value_of (byId s ''sidebarChatInput''))) ''user'',
               bubble (''sidebar-msg-'' @ dec n2)
                 (''Analyzing '' @ (if isAdvancedMode s then ''ALL complete study data''
                                   else ''essential study data'') @ '' from filtered studies...'')
                 ''loading''])
   \<and> (snd (sendSidebarMessage_begin n1 n2 s) = None \<longrightarrow>
        sidebarChatMessages (fst (sendSidebarMessage_begin n1 n2 s)) = sidebarChatMessages s)
   \<and> (sidebarChatMessages s = spre @ [bubble sid stxt ''loading''] @ spost \<and> sid \<notin> nid ` set spre \<longrightarrow>
        (\<exists>txt. sidebarChatMessages (fst (sendSidebarMessage_finish n3 sid r' s))
           = remove_class ''chat-placeholder'' (spre @ spost)
             @ [bubble (''sidebar-msg-'' @ dec n3) txt ''assistant'']))
   \<and> (sid \<notin> nid ` set (sidebarChatMessages s) \<longrightarrow>
        sidebarChatMessages (fst (sendSidebarMessage_finish n3 sid r' s)) = sidebarChatMessages s)"
proof -
  have a: "chatMessages (closeChatModal s) = chatMessages s"
    "chatMessages (openChatModal nct ttl s) = [chat_placeholder ttl]"
    "sidebarChatMessages (clearFilters s) = [sidebar_placeholder]"
    "sidebarChatMessages (openChatModal nct ttl s) = sidebarChatMessages s"
    "sidebarChatMessages (closeChatModal s) = sidebarChatMessages s"
    "chatMessages (clearFilters s) = chatMessages s"
    by (simp_all add: closeChatModal_def openChatModal_def clearFilters_def Let_def)
  have b: "prefix (chatMessages s) (chatMessages (fst (sendMessage_begin n1 n2 s)))"
    using sendMessage_begin_appends [of n1 n2 s]
    by (cases "snd (sendMessage_begin n1 n2 s) = None") auto
  have c: "\<exists>txt. chatMessages (fst (sendMessage_finish n3 lid r s))
           = pre @ post @ [bubble (''msg-'' @ dec n3) txt ''assistant'']"
    if "chatMessages s = pre @ [bubble lid ltxt ''loading''] @ post" "lid \<notin> nid ` set pre"
  proof -
    have "remove_id lid (chatMessages s) = Some (pre @ post)"
      using that remove_id_first [of "bubble lid ltxt ''loading''" lid pre post] by simp
    from sendMessage_finish_removed [OF this] show ?thesis by simp
  qed
  have d: "chatMessages (fst (sendMessage_finish n3 lid r s)) = chatMessages s"
    if "lid \<notin> nid ` set (chatMessages s)"
    using sendMessage_finish_absent [OF remove_id_absent [OF that]] .
  have e: "\<exists>txt. sidebarChatMessages (fst (sendSidebarMessage_finish n3 sid r' s))
           = remove_class ''chat-placeholder'' (spre @ spost)
             @ [bubble (''sidebar-msg-'' @ dec n3) txt ''assistant'']"
    if "sidebarChatMessages s = spre @ [bubble sid stxt ''loading''] @ spost" "sid \<notin> nid ` set spre"
  proof -
    have "remove_id sid (sidebarChatMessages s) = Some (spre @ spost)"
      using that remove_id_first [of "bubble sid stxt ''loading''" sid spre spost] by simp
    from sendSidebarMessage_finish_removed [OF this] show ?thesis .
  qed
  have f: "sidebarChatMessages (fst (sendSidebarMessage_finish n3 sid r' s)) = sidebarChatMessages s"
    if "sid \<notin> nid ` set (sidebarChatMessages s)"
    using sendSidebarMessage_finish_absent [OF remove_id_absent [OF that]] .
  from a b c d e f sendMessage_begin_appends(1) [of n1 n2 s]
    sendSidebarMessage_begin_appends [of n1 n2 s]
  show ?thesis by blast
qed

text \<open>
  The theorem of C2 on the filled-in page, where both questions pass the guard, on the
  page before the first search, where neither does, and on the page where both chats
  wait for their reply, with the id of the loading bubble and with an id that no entry
  carries.
\<close>

theorem transcript_lifecycle_witness:
  "snd (sendMessage_begin 10 11 ready) \<noteq> None
   \<and> chatMessages (fst (sendMessage_begin 10 11 ready))
       = chatMessages ready
         @ [bubble ''msg-10'' ''NCT002'' ''user'',
            bubble ''msg-11'' ''Analyzing study data...'' ''loading'']
   \<and> snd (sendSidebarMessage_begin 10 11 ready) \<noteq> None
   \<and> sidebarChatMessages (fst (sendSidebarMessage_begin 10 11 ready))
       = [bubble ''sidebar-msg-10'' ''NCT002'' ''user'',
          bubble ''sidebar-msg-11'' ''Analyzing essential study data from filtered studies...'' ''loading'']
   \<and> snd (sendMessage_begin 10 11 page0) = None
   \<and> snd (sendSidebarMessage_begin 10 11 page0) = None
   \<and> sidebarChatMessages (fst (sendSidebarMessage_begin 10 11 page0)) = sidebarChatMessages page0
   \<and> chatMessages waiting
       = [chat_placeholder ''A study'', bubble ''msg-10'' ''NCT002'' ''user'']
         @ [bubble ''msg-11'' ''Analyzing study data...'' ''loading''] @ []
   \<and> ''msg-11'' \<notin> nid ` set [chat_placeholder ''A study'', bubble ''msg-10'' ''NCT002'' ''user'']
   \<and> chatMessages (fst (sendMessage_finish 12 ''msg-11'' (Response True (Inr an_answer)) waiting))
       = [chat_placeholder ''A study'', bubble ''msg-10'' ''NCT002'' ''user'',
          bubble ''msg-12'' ''It is.'' ''assistant'']
   \<and> ''msg-99'' \<notin> nid ` set (chatMessages waiting)
   \<and> chatMessages (fst (sendMessage_finish 12 ''msg-99'' (Response True (Inr an_answer)) waiting))
       = chatMessages waiting
   \<and> sidebarChatMessages waiting
       = [bubble ''sidebar-msg-10'' ''NCT002'' ''user'']
         @ [bubble ''sidebar-msg-11'' ''Analyzing essential study data from filtered studies...'' ''loading''] @ []
   \<and> ''sidebar-msg-11'' \<notin> nid ` set [bubble ''sidebar-msg-10'' ''NCT002'' ''user'']
   \<and> sidebarChatMessages (fst (sendSidebarMessage_finish 12 ''sidebar-msg-11'' (Response True (Inr an_answer)) waiting))
       = [bubble ''sidebar-msg-10'' ''NCT002'' ''user'',
          bubble ''sidebar-msg-12'' ''It is.'' ''assistant'']
   \<and> ''sidebar-msg-99'' \<notin> nid ` set (sidebarChatMessages waiting)
   \<and> sidebarChatMessages (fst (sendSidebarMessage_finish 12 ''sidebar-msg-99'' (Response True (Inr an_answer)) waiting))
       = sidebarChatMessages waiting"
proof -
  have g: "snd (sendMessage_begin 10 11 ready) \<noteq> None"
    "snd (sendSidebarMessage_begin 10 11 ready) \<noteq> None"
    "snd (sendMessage_begin 10 11 page0) = None"
    "snd (sendSidebarMessage_begin 10 11 page0) = None"
    by (simp_all add: sendMessage_begin_def sendSidebarMessage_begin_def ready_inputs Let_def
        split_beta truthy_def)
       (simp_all add: ready_def page0_def blank_def value_of_def)
  have r: "trim (value_of (byId ready ''chatInput'')) = ''NCT002''"
    "trim (value_of (byId ready ''sidebarChatInput'')) = ''NCT002''"
    "\<not> isAdvancedMode ready" "sidebarChatMessages ready = [sidebar_placeholder]"
    "has_class ''chat-placeholder'' sidebar_placeholder"
    by (simp_all add: ready_inputs) (simp_all add: ready_def page0_def has_class_def sidebar_placeholder_def)
  have n: "''msg-99'' \<notin> nid ` set (chatMessages waiting)"
    "''sidebar-msg-99'' \<notin> nid ` set (sidebarChatMessages waiting)"
    by (simp_all add: waiting_chat chat_placeholder_def)
  have x: "remove_id ''msg-11'' (chatMessages waiting)
      = Some [chat_placeholder ''A study'', bubble ''msg-10'' ''NCT002'' ''user'']"
    "remove_id ''sidebar-msg-11'' (sidebarChatMessages waiting)
      = Some [bubble ''sidebar-msg-10'' ''NCT002'' ''user'']"
    by (simp_all add: waiting_chat chat_placeholder_def)
  have y: "chatMessages (fst (sendMessage_finish 12 ''msg-11'' (Response True (Inr an_answer)) waiting))
       = [chat_placeholder ''A study'', bubble ''msg-10'' ''NCT002'' ''user'',
          bubble ''msg-12'' ''It is.'' ''assistant'']"
    "sidebarChatMessages (fst (sendSidebarMessage_finish 12 ''sidebar-msg-11'' (Response True (Inr an_answer)) waiting))
       = [bubble ''sidebar-msg-10'' ''NCT002'' ''user'',
          bubble ''sidebar-msg-12'' ''It is.'' ''assistant'']"
    by (simp_all add: sendMessage_finish_def sendSidebarMessage_finish_def sendSidebarMessage_try_def
        x Let_def an_answer_def truthy_def str_def dec_small)
  from g r n y waiting_chat waiting_ids
    transcript_lifecycle [where s = ready and ?n1.0 = 10 and ?n2.0 = 11]
    transcript_lifecycle [where s = page0 and ?n1.0 = 10 and ?n2.0 = 11]
    transcript_lifecycle [where s = waiting and lid = "''msg-99''" and sid = "''sidebar-msg-99''"
      and ?n3.0 = 12 and r = "Response True (Inr an_answer)" and r' = "Response True (Inr an_answer)"]
  show ?thesis by (simp add: dec_small)
qed

text \<open>
  Claim C2 as stated fails for the study chat: after a question and its answer,
  \<open>closeChatModal\<close> leaves the placeholder and both messages in the transcript.
\<close>

theorem close_keeps_transcript:
  "chatMessages (closeChatModal talk) =
     [chat_placeholder ''A study'', bubble ''msg-10'' ''NCT002'' ''user'',
      bubble ''msg-12'' ''It is.'' ''assistant'']"
  by (simp add: closeChatModal_def talk_transcript)

text \<open>
  The ids of the two bubbles of one question come from two calls of \<open>Date.now()\<close>.
  When both calls give the same millisecond the question is the first entry that
  carries the id of the loading bubble: the reply takes out the question and the loading
  bubble stays.
\<close>

lemma same_millisecond_ids:
  "chatMessages (fst (sendMessage_begin 10 10 ready))
     = [chat_placeholder ''A study'', bubble ''msg-10'' ''NCT002'' ''user'',
        bubble ''msg-10'' ''Analyzing study data...'' ''loading'']"
  "chatMessages (fst (sendMessage_finish 12 ''msg-10'' (Response True (Inr an_answer))
       (fst (sendMessage_begin 10 10 ready))))
     = [chat_placeholder ''A study'', bubble ''msg-10'' ''Analyzing study data...'' ''loading'',
        bubble ''msg-12'' ''It is.'' ''assistant'']"
proof -
  show w: "chatMessages (fst (sendMessage_begin 10 10 ready))
     = [chat_placeholder ''A study'', bubble ''msg-10'' ''NCT002'' ''user'',
        bubble ''msg-10'' ''Analyzing study data...'' ''loading'']"
    by (simp add: sendMessage_begin_def ready_inputs Let_def split_beta truthy_def dec_small)
       (simp add: ready_def page0_def)
  have x: "remove_id ''msg-10'' (chatMessages (fst (sendMessage_begin 10 10 ready)))
      = Some [chat_placeholder ''A study'', bubble ''msg-10'' ''Analyzing study data...'' ''loading'']"
    unfolding w by (simp add: chat_placeholder_def)
  show "chatMessages (fst (sendMessage_finish 12 ''msg-10'' (Response True (Inr an_answer))
       (fst (sendMessage_begin 10 10 ready))))
     = [chat_placeholder ''A study'', bubble ''msg-10'' ''Analyzing study data...'' ''loading'',
        bubble ''msg-12'' ''It is.'' ''assistant'']"
    by (simp add: sendMessage_finish_def x Let_def an_answer_def truthy_def str_def dec_small)
qed

subsection \<open>A failed transport\<close>

lemma sendMessage_thrown:
  assumes "remove_id lid (chatMessages s) = Some ms"
  shows "chatMessages (fst (sendMessage_finish now lid (Rejected m) s))
           = ms @ [bubble (''msg-'' @ dec now) ''Error: Failed to get response.'' ''assistant'']"
    and "chatMessages (fst (sendMessage_finish now lid (Response ok (Inl m)) s))
           = ms @ [bubble (''msg-'' @ dec now) ''Error: Failed to get response.'' ''assistant'']"
  using assms by (simp_all add: sendMessage_finish_def sendMessage_catch_def)

lemma sendSidebarMessage_thrown:
  assumes "remove_id lid (sidebarChatMessages s) = Some ms"
  shows "sidebarChatMessages (fst (sendSidebarMessage_finish now lid (Rejected m) s))
           = remove_class ''chat-placeholder'' ms
             @ [bubble (''sidebar-msg-'' @ dec now) ''Error: Failed to get response.'' ''assistant'']"
    and "sidebarChatMessages (fst (sendSidebarMessage_finish now lid (Response ok (Inl m)) s))
           = remove_class ''chat-placeholder'' ms
             @ [bubble (''sidebar-msg-'' @ dec now) ''Error: Failed to get response.'' ''assistant'']"
  using assms
  by (simp_all add: sendSidebarMessage_finish_def sendSidebarMessage_try_def
      sendSidebarMessage_catch_def Let_def)

lemma sendMessage_thrown_loading:
  assumes "chatMessages s = pre @ [bubble lid ltxt ''loading''] @ post" and "lid \<notin> nid ` set pre"
  shows "chatMessages (fst (sendMessage_finish now lid (Rejected m) s))
           = pre @ post @ [bubble (''msg-'' @ dec now) ''Error: Failed to get response.'' ''assistant'']"
    and "chatMessages (fst (sendMessage_finish now lid (Response ok (Inl m)) s))
           = pre @ post @ [bubble (''msg-'' @ dec now) ''Error: Failed to get response.'' ''assistant'']"
proof -
  have "remove_id lid (chatMessages s) = Some (pre @ post)"
    using assms remove_id_first [of "bubble lid ltxt ''loading''" lid pre post] by simp
  from sendMessage_thrown [OF this]
  show "chatMessages (fst (sendMessage_finish now lid (Rejected m) s))
           = pre @ post @ [bubble (''msg-'' @ dec now) ''Error: Failed to get response.'' ''assistant'']"
    and "chatMessages (fst (sendMessage_finish now lid (Response ok (Inl m)) s))
           = pre @ post @ [bubble (''msg-'' @ dec now) ''Error: Failed to get response.'' ''assistant'']"
    by simp_all
qed

lemma sendSidebarMessage_thrown_loading:
  assumes "sidebarChatMessages s = pre @ [bubble lid ltxt ''loading''] @ post"
    and "lid \<notin> nid ` set pre"
  shows "sidebarChatMessages (fst (sendSidebarMessage_finish now lid (Rejected m) s))
           = remove_class ''chat-placeholder'' (pre @ post)
             @ [bubble (''sidebar-msg-'' @ dec now) ''Error: Failed to get response.'' ''assistant'']"
    and "sidebarChatMessages (fst (sendSidebarMessage_finish now lid (Response ok (Inl m)) s))
           = remove_class ''chat-placeholder'' (pre @ post)
             @ [bubble (''sidebar-msg-'' @ dec now) ''Error: Failed to get response.'' ''assistant'']"
proof -
  have "remove_id lid (sidebarChatMessages s) = Some (pre @ post)"
    using assms remove_id_first [of "bubble lid ltxt ''loading''" lid pre post] by simp
  from sendSidebarMessage_thrown [OF this]
  show "sidebarChatMessages (fst (sendSidebarMessage_finish now lid (Rejected m) s))
           = remove_class ''chat-placeholder'' (pre @ post)
             @ [bubble (''sidebar-msg-'' @ dec now) ''Error: Failed to get response.'' ''assistant'']"
    and "sidebarChatMessages (fst (sendSidebarMessage_finish now lid (Response ok (Inl m)) s))
           = remove_class ''chat-placeholder'' (pre @ post)
             @ [bubble (''sidebar-msg-'' @ dec now) ''Error: Failed to get response.'' ''assistant'']"
    by simp_all
qed

lemma search_thrown:
  "alerts (searchStudies_finish loc (Rejected m) s) = alerts s @ [''Error: '' @ m]"
  "alerts (searchStudies_finish loc (Response True (Inl m)) s) = alerts s @ [''Error: '' @ m]"
  by (simp_all add: searchStudies_finish_def)

lemma protocol_thrown:
  "alerts (generateProtocolReport_finish (Rejected m) s) = alerts s @ [''Error generating report: '' @ m]"
  "alerts (generateProtocolReport_finish (Response ok (Inl m)) s) = alerts s @ [''Error generating report: '' @ m]"
  by (simp_all add: generateProtocolReport_finish_def generateProtocolReport_catch_def)

lemma agentic_thrown:
  "content (byId (runAgenticSearch_finish (Rejected m) s) ''agenticSearchResult'') = Html (error_box m)"
  "content (byId (runAgenticSearch_finish (Response ok (Inl m)) s) ''agenticSearchResult'') = Html (error_box m)"
  by (simp_all add: runAgenticSearch_finish_def)

lemma analysis_thrown:
  "content (byId (runMultiAgentAnalysis_finish (Rejected m) s) ''analysisResult'') = Html (error_box m)"
  "content (byId (runMultiAgentAnalysis_finish (Response ok (Inl m)) s) ''analysisResult'') = Html (error_box m)"
  by (simp_all add: runMultiAgentAnalysis_finish_def)

lemma compare_thrown:
  "content (byId (runTrialComparison_finish (Rejected m) s) ''compareResult'') = Html (error_box m)"
  "content (byId (runTrialComparison_finish (Response ok (Inl m)) s) ''compareResult'') = Html (error_box m)"
  by (simp_all add: runTrialComparison_finish_def)

lemma amendment_thrown:
  "content (byId (runAmendmentRisk_finish (Rejected m) s) ''amendmentResult'') = Html (error_box m)"
  "content (byId (runAmendmentRisk_finish (Response ok (Inl m)) s) ''amendmentResult'') = Html (error_box m)"
  by (simp_all add: runAmendmentRisk_finish_def)

lemma pattern_thrown:
  "content (byId (runDesignPatterns_finish (Rejected m) s) ''patternResult'') = Html (error_box m)"
  "content (byId (runDesignPatterns_finish (Response ok (Inl m)) s) ''patternResult'') = Html (error_box m)"
  by (simp_all add: runDesignPatterns_finish_def)

lemma soa_thrown:
  "content (byId (runSoAComposer_finish (Rejected m) s) ''soaResult'') = Html (error_box m)"
  "content (byId (runSoAComposer_finish (Response ok (Inl m)) s) ''soaResult'') = Html (error_box m)"
  by (simp_all add: runSoAComposer_finish_def)

text \<open>
  Claim C3, as the code has it. When \<open>fetch\<close> or \<open>response.json()\<close> throws, the two chat
  handlers put the fixed message \<open>Error: Failed to get response.\<close>, whatever was thrown,
  in place of the loading bubble: given that the transcript holds the loading bubble and
  no entry before it carries its id, the bubble is taken out and the fixed message is
  appended as the assistant's bubble. The other eight handlers show the message of the
  thrown error itself: search and the protocol report in an alert, after \<open>Error: \<close> and
  \<open>Error generating report: \<close>, the six agent features in the error box of their result
  panel.
\<close>

theorem thrown_error_surfaces:
  "(chatMessages s = pre @ [bubble lid ltxt ''loading''] @ post \<and> lid \<notin> nid ` set pre \<longrightarrow>
      chatMessages (fst (sendMessage_finish now lid (Rejected m) s)) = pre @ post @ [bubble (''msg-'' @ dec now) ''Error: Failed to get response.'' ''assistant'']
      \<and> chatMessages (fst (sendMessage_finish now lid (Response ok (Inl m)) s)) = pre @ post @ [bubble (''msg-'' @ dec now) ''Error: Failed to get response.'' ''assistant''])
   \<and> (sidebarChatMessages s = spre @ [bubble sid stxt ''loading''] @ spost \<and> sid \<notin> nid ` set spre \<longrightarrow>
      sidebarChatMessages (fst (sendSidebarMessage_finish now sid (Rejected m) s))
        = remove_class ''chat-placeholder'' (spre @ spost) @ [bubble (''sidebar-msg-'' @ dec now) ''Error: Failed to get response.'' ''assistant'']
      \<and> sidebarChatMessages (fst (sendSidebarMessage_finish now sid (Response ok (Inl m)) s))
        = remove_class ''chat-placeholder'' (spre @ spost) @ [bubble (''sidebar-msg-'' @ dec now) ''Error: Failed to get response.'' ''assistant''])
   \<and> alerts (searchStudies_finish loc (Rejected m) s) = alerts s @ [''Error: '' @ m]
   \<and> alerts (searchStudies_finish loc (Response True (Inl m)) s) = alerts s @ [''Error: '' @ m]
   \<and> alerts (generateProtocolReport_finish (Rejected m) s) = alerts s @ [''Error generating report: '' @ m]
   \<and> alerts (generateProtocolReport_finish (Response ok (Inl m)) s) = alerts s @ [''Error generating report: '' @ m]
   \<and> content (byId (runAgenticSearch_finish (Rejected m) s) ''agenticSearchResult'') = Html (error_box m)
   \<and> content (byId (runAgenticSearch_finish (Response ok (Inl m)) s) ''agenticSearchResult'') = Html (error_box m)
   \<and> content (byId (runMultiAgentAnalysis_finish (Rejected m) s) ''analysisResult'') = Html (error_box m)
   \<and> content (byId (runMultiAgentAnalysis_finish (Response ok (Inl m)) s) ''analysisResult'') = Html (error_box m)
   \<and> content (byId (runTrialComparison_finish (Rejected m) s) ''compareResult'') = Html (error_box m)
   \<and> content (byId (runTrialComparison_finish (Response ok (Inl m)) s) ''compareResult'') = Html (error_box m)
   \<and> content (byId (runAmendmentRisk_finish (Rejected m) s) ''amendmentResult'') = Html (error_box m)
   \<and> content (byId (runAmendmentRisk_finish (Response ok (Inl m)) s) ''amendmentResult'') = Html (error_box m)
   \<and> content (byId (runDesignPatterns_finish (Rejected m) s) ''patternResult'') = Html (error_box m)
   \<and> content (byId (runDesignPatterns_finish (Response ok (Inl m)) s) ''patternResult'') = Html (error_box m)
   \<and> content (byId (runSoAComposer_finish (Rejected m) s) ''soaResult'') = Html (error_box m)
   \<and> content (byId (runSoAComposer_finish (Response ok (Inl m)) s) ''soaResult'') = Html (error_box m)"
  by (simp add: sendMessage_thrown_loading sendSidebarMessage_thrown_loading search_thrown protocol_thrown
      agentic_thrown analysis_thrown compare_thrown amendment_thrown pattern_thrown soa_thrown)

text \<open>
  The theorem of C3 on the page where both chats wait for their reply.
\<close>

theorem thrown_error_surfaces_witness:
  "chatMessages waiting
     = [chat_placeholder ''A study'', bubble ''msg-10'' ''NCT002'' ''user'']
       @ [bubble ''msg-11'' ''Analyzing study data...'' ''loading''] @ []
   \<and> ''msg-11'' \<notin> nid ` set [chat_placeholder ''A study'', bubble ''msg-10'' ''NCT002'' ''user'']
   \<and> chatMessages (fst (sendMessage_finish 12 ''msg-11'' (Rejected ''Failed to fetch'') waiting))
     = [chat_placeholder ''A study'', bubble ''msg-10'' ''NCT002'' ''user'',
        bubble ''msg-12'' ''Error: Failed to get response.'' ''assistant'']
   \<and> sidebarChatMessages waiting
     = [bubble ''sidebar-msg-10'' ''NCT002'' ''user'']
       @ [bubble ''sidebar-msg-11'' ''Analyzing essential study data from filtered studies...'' ''loading''] @ []
   \<and> ''sidebar-msg-11'' \<notin> nid ` set [bubble ''sidebar-msg-10'' ''NCT002'' ''user'']
   \<and> sidebarChatMessages (fst (sendSidebarMessage_finish 12 ''sidebar-msg-11'' (Rejected ''Failed to fetch'') waiting))
     = [bubble ''sidebar-msg-10'' ''NCT002'' ''user'',
        bubble ''sidebar-msg-12'' ''Error: Failed to get response.'' ''assistant'']"
proof -
  from waiting_chat waiting_ids
    thrown_error_surfaces [where s = waiting and lid = "''msg-11''" and sid = "''sidebar-msg-11''"
      and now = 12 and m = "''Failed to fetch''"
      and pre = "[chat_placeholder ''A study'', bubble ''msg-10'' ''NCT002'' ''user'']"
      and ltxt = "''Analyzing study data...''" and post = "[]"
      and spre = "[bubble ''sidebar-msg-10'' ''NCT002'' ''user'']"
      and stxt = "''Analyzing essential study data from filtered studies...''" and spost = "[]"]
  show ?thesis by (simp add: dec_small)
qed

text \<open>
  Claim C3 as stated fails outside the chats: the agentic search shows \<open>Load failed\<close>
  for one rejected \<open>fetch\<close> and \<open>Failed to fetch\<close> for another, and search alerts
  \<open>Error: Load failed\<close>.
\<close>

theorem agent_failure_shows_thrown_message:
  "content (byId (runAgenticSearch_finish (Rejected ''Load failed'') ready) ''agenticSearchResult'')
     = Html (error_box ''Load failed'')
   \<and> content (byId (runAgenticSearch_finish (Rejected ''Failed to fetch'') ready) ''agenticSearchResult'')
     = Html (error_box ''Failed to fetch'')
   \<and> error_box ''Load failed'' \<noteq> error_box ''Failed to fetch''
   \<and> alerts (searchStudies_finish num (Rejected ''Load failed'') ready) = [''Error: Load failed'']"
  by (simp add: agentic_thrown search_thrown error_box_def) (simp add: ready_def page0_def)

subsection \<open>Three pages\<close>

text \<open>
  Claim C4. After a successful reply of \<open>/api/search\<close> with \<open>total_pages = 3\<close>, on each of
  the pages 1, 2 and 3, the pagination bar holds \<open>Previous\<close>, exactly the three numbered
  buttons 1, 2 and 3, and \<open>Next\<close>; the button of the current page has the class
  \<open>active\<close> and no other button has it.
\<close>

theorem pagination_three_pages:
  assumes "total_pages d = 3" and "currentPage s \<in> {1, 2, 3}"
  shows "map onclick (pagination (searchStudies_finish loc (Response True (Inr d)) s))
           = [Prev, Goto 1, Goto 2, Goto 3, Next]
         \<and> map label (pagination (searchStudies_finish loc (Response True (Inr d)) s))
           = [[CHR 0xAB] @ '' Previous'', ''1'', ''2'', ''3'', ''Next '' @ [CHR 0xBB]]
         \<and> map pclass (pagination (searchStudies_finish loc (Response True (Inr d)) s))
           = ['''', if currentPage s = 1 then ''active'' else '''',
              if currentPage s = 2 then ''active'' else '''',
              if currentPage s = 3 then ''active'' else '''', '''']"
proof -
  have u: "[1..3] = [1, 2, 3::int]" by (simp add: upto.simps)
  from assms(2) have w: "[max 1 (currentPage s - 3)..min 3 (currentPage s + 3)] = [1, 2, 3]"
    using u by auto
  show ?thesis
    using assms w by (auto simp: bar_after_search displayPagination_def Let_def num_small)
qed

text \<open>
  The theorem of C4 on the second of three pages.
\<close>

theorem pagination_three_pages_witness:
  "total_pages three_pages = 3 \<and> currentPage (fst (searchStudies_begin (Some 2) page0)) \<in> {1, 2, 3}
   \<and> map onclick (pagination (searchStudies_finish num (Response True (Inr three_pages))
        (fst (searchStudies_begin (Some 2) page0)))) = [Prev, Goto 1, Goto 2, Goto 3, Next]
   \<and> map pclass (pagination (searchStudies_finish num (Response True (Inr three_pages))
        (fst (searchStudies_begin (Some 2) page0)))) = ['''', '''', ''active'', '''', '''']"
proof -
  have h1: "total_pages three_pages = 3" by (simp add: three_pages_def)
  have h2: "currentPage (fst (searchStudies_begin (Some 2) page0)) = 2"
    by (simp add: searchStudies_begin_def Let_def)
  then have h3: "currentPage (fst (searchStudies_begin (Some 2) page0)) \<in> {1, 2, 3}" by simp
  from pagination_three_pages [OF h1 h3, of num] h1 h2 show ?thesis by simp
qed

subsection \<open>A reply with an error field\<close>

lemma sendMessage_error:
  assumes "error d = Some e" and "e \<noteq> []" and "remove_id lid (chatMessages s) = Some ms"
  shows "chatMessages (fst (sendMessage_finish now lid (Response ok (Inr d)) s))
           = ms @ [bubble (''msg-'' @ dec now) (''Error: '' @ e) ''assistant'']"
  using assms by (simp add: sendMessage_finish_def Let_def truthy_def str_def)

lemma sendSidebarMessage_error:
  assumes "error d = Some e" and "e \<noteq> []" and "remove_id lid (sidebarChatMessages s) = Some ms"
  shows "sidebarChatMessages (fst (sendSidebarMessage_finish now lid (Response ok (Inr d)) s))
           = remove_class ''chat-placeholder'' ms
             @ [bubble (''sidebar-msg-'' @ dec now) (''Error: '' @ e) ''assistant'']"
  using assms
  by (simp add: sendSidebarMessage_finish_def sendSidebarMessage_try_def Let_def truthy_def str_def)

lemma protocol_error:
  assumes "error d = Some e" and "e \<noteq> []"
  shows "alerts (generateProtocolReport_finish (Response ok (Inr d)) s) = alerts s @ [''Error: '' @ e]"
    and "content (byId (generateProtocolReport_finish (Response ok (Inr d)) s) ''protocolReportContent'')
           = content (byId s ''protocolReportContent'')"
    and "display (byId (generateProtocolReport_finish (Response ok (Inr d)) s) ''protocolReportContainer'')
           = display (byId s ''protocolReportContainer'')"
  using assms by (simp_all add: generateProtocolReport_finish_def Let_def truthy_def str_def)

lemma displayResults_ignores_error:
  "displayResults (d\<lparr>error := x\<rparr>) = displayResults d"
  by (rule ext) (simp add: displayResults_def)

lemma search_ignores_error:
  "searchStudies_finish loc (Response ok (Inr (d\<lparr>error := x\<rparr>))) s
     = searchStudies_finish loc (Response ok (Inr d)) s"
  by (simp add: searchStudies_finish_def displayResults_ignores_error cong del: if_weak_cong)

lemma agentic_error:
  "\<not> success d \<Longrightarrow> error d = Some e \<Longrightarrow> e \<noteq> [] \<Longrightarrow>
     content (byId (runAgenticSearch_finish (Response ok (Inr d)) s) ''agenticSearchResult'') = Html (error_box e)"
  by (simp add: runAgenticSearch_finish_def or_else_def)

lemma agentic_not_template: "error_box e \<noteq> agenticSearch_html p"
  by (simp add: error_box_def agenticSearch_html_def)

lemma analysis_error:
  "\<not> success d \<Longrightarrow> error d = Some e \<Longrightarrow> e \<noteq> [] \<Longrightarrow>
     content (byId (runMultiAgentAnalysis_finish (Response ok (Inr d)) s) ''analysisResult'') = Html (error_box e)"
  by (simp add: runMultiAgentAnalysis_finish_def or_else_def)

lemma analysis_not_template: "error_box e \<noteq> analysis_html p"
  by (simp add: error_box_def analysis_html_def)

lemma compare_error:
  "\<not> success d \<Longrightarrow> error d = Some e \<Longrightarrow> e \<noteq> [] \<Longrightarrow>
     content (byId (runTrialComparison_finish (Response ok (Inr d)) s) ''compareResult'') = Html (error_box e)"
  by (simp add: runTrialComparison_finish_def or_else_def)

lemma compare_not_template: "error_box e \<noteq> compare_html p"
  by (simp add: error_box_def compare_html_def)

lemma amendment_error:
  "\<not> success d \<Longrightarrow> error d = Some e \<Longrightarrow> e \<noteq> [] \<Longrightarrow>
     content (byId (runAmendmentRisk_finish (Response ok (Inr d)) s) ''amendmentResult'') = Html (error_box e)"
  by (simp add: runAmendmentRisk_finish_def or_else_def)

lemma amendment_not_template: "error_box e \<noteq> amendment_html p"
  by (simp add: error_box_def amendment_html_def)

lemma pattern_error:
  "\<not> success d \<Longrightarrow> error d = Some e \<Longrightarrow> e \<noteq> [] \<Longrightarrow>
     content (byId (runDesignPatterns_finish (Response ok (Inr d)) s) ''patternResult'') = Html (error_box e)"
  by (simp add: runDesignPatterns_finish_def or_else_def)

lemma pattern_not_template: "error_box e \<noteq> pattern_html p"
  by (simp add: error_box_def pattern_html_def)

lemma soa_error:
  "\<not> success d \<Longrightarrow> error d = Some e \<Longrightarrow> e \<noteq> [] \<Longrightarrow>
     content (byId (runSoAComposer_finish (Response ok (Inr d)) s) ''soaResult'') = Html (error_box e)"
  by (simp add: runSoAComposer_finish_def or_else_def)

lemma soa_not_template: "error_box e \<noteq> soa_html p"
  by (simp add: error_box_def soa_html_def)

text \<open>
  Claim C5, as the code has it. A body with a non-empty \<open>error\<close> field is shown verbatim
  after an error prefix, in place of the success template, by nine of the ten handlers:
  the two chats append \<open>Error: \<close> and the text as the assistant's bubble (given that the
  transcript still holds the loading bubble); the protocol report alerts \<open>Error: \<close> and the
  text and leaves the report as it was; each agent feature, when \<open>success\<close> is not set,
  puts the error box with the text into its result panel, which no payload renders to.
  Search does not read the field: the reply is handled as if the field had any other
  value.
\<close>

theorem error_field_surfaces:
  "(error cd = Some e \<and> e \<noteq> [] \<and> remove_id lid (chatMessages s) = Some ms \<longrightarrow>
      chatMessages (fst (sendMessage_finish now lid (Response ok (Inr cd)) s)) = ms @ [bubble (''msg-'' @ dec now) (''Error: '' @ e) ''assistant''])
   \<and> (error cd = Some e \<and> e \<noteq> [] \<and> remove_id sid (sidebarChatMessages s) = Some sms \<longrightarrow>
      sidebarChatMessages (fst (sendSidebarMessage_finish now sid (Response ok (Inr cd)) s))
        = remove_class ''chat-placeholder'' sms @ [bubble (''sidebar-msg-'' @ dec now) (''Error: '' @ e) ''assistant''])
   \<and> (error pd = Some e \<and> e \<noteq> [] \<longrightarrow>
      alerts (generateProtocolReport_finish (Response ok (Inr pd)) s) = alerts s @ [''Error: '' @ e]
      \<and> content (byId (generateProtocolReport_finish (Response ok (Inr pd)) s) ''protocolReportContent'')
          = content (byId s ''protocolReportContent'')
      \<and> display (byId (generateProtocolReport_finish (Response ok (Inr pd)) s) ''protocolReportContainer'')
          = display (byId s ''protocolReportContainer''))
   \<and> (\<not> success d1 \<and> error d1 = Some e \<and> e \<noteq> [] \<longrightarrow>
      content (byId (runAgenticSearch_finish (Response ok (Inr d1)) s) ''agenticSearchResult'') = Html (error_box e)
      \<and> error_box e \<noteq> agenticSearch_html p1)
   \<and> (\<not> success d2 \<and> error d2 = Some e \<and> e \<noteq> [] \<longrightarrow>
      content (byId (runMultiAgentAnalysis_finish (Response ok (Inr d2)) s) ''analysisResult'') = Html (error_box e)
      \<and> error_box e \<noteq> analysis_html p2)
   \<and> (\<not> success d3 \<and> error d3 = Some e \<and> e \<noteq> [] \<longrightarrow>
      content (byId (runTrialComparison_finish (Response ok (Inr d3)) s) ''compareResult'') = Html (error_box e)
      \<and> error_box e \<noteq> compare_html p3)
   \<and> (\<not> success d4 \<and> error d4 = Some e \<and> e \<noteq> [] \<longrightarrow>
      content (byId (runAmendmentRisk_finish (Response ok (Inr d4)) s) ''amendmentResult'') = Html (error_box e)
      \<and> error_box e \<noteq> amendment_html p4)
   \<and> (\<not> success d5 \<and> error d5 = Some e \<and> e \<noteq> [] \<longrightarrow>
      content (byId (runDesignPatterns_finish (Response ok (Inr d5)) s) ''patternResult'') = Html (error_box e)
      \<and> error_box e \<noteq> pattern_html p5)
   \<and> (\<not> success d6 \<and> error d6 = Some e \<and> e \<noteq> [] \<longrightarrow>
      content (byId (runSoAComposer_finish (Response ok (Inr d6)) s) ''soaResult'') = Html (error_box e)
      \<and> error_box e \<noteq> soa_html p6)
   \<and> searchStudies_finish loc (Response ok (Inr (sd\<lparr>error := x\<rparr>))) s
      = searchStudies_finish loc (Response ok (Inr sd)) s"
  by (simp add: sendMessage_error sendSidebarMessage_error protocol_error search_ignores_error
      agentic_error agentic_not_template analysis_error analysis_not_template compare_error compare_not_template amendment_error amendment_not_template pattern_error pattern_not_template soa_error soa_not_template)

text \<open>
  The theorem of C5 on the page where both chats wait, for bodies that carry the error
  \<open>Trial not found\<close>.
\<close>

theorem error_field_surfaces_witness:
  "error refused_chat = Some ''Trial not found''
   \<and> remove_id ''msg-11'' (chatMessages waiting) = Some [chat_placeholder ''A study'', bubble ''msg-10'' ''NCT002'' ''user'']
   \<and> chatMessages (fst (sendMessage_finish 12 ''msg-11'' (Response False (Inr refused_chat)) waiting))
     = [chat_placeholder ''A study'', bubble ''msg-10'' ''NCT002'' ''user'',
        bubble ''msg-12'' ''Error: Trial not found'' ''assistant'']
   \<and> remove_id ''sidebar-msg-11'' (sidebarChatMessages waiting) = Some [bubble ''sidebar-msg-10'' ''NCT002'' ''user'']
   \<and> sidebarChatMessages (fst (sendSidebarMessage_finish 12 ''sidebar-msg-11'' (Response False (Inr refused_chat)) waiting))
     = [bubble ''sidebar-msg-10'' ''NCT002'' ''user'',
        bubble ''sidebar-msg-12'' ''Error: Trial not found'' ''assistant'']
   \<and> error refused_report = Some ''Trial not found''
   \<and> alerts (generateProtocolReport_finish (Response False (Inr refused_report)) waiting)
     = alerts waiting @ [''Error: Trial not found'']
   \<and> \<not> success (refused empty_agentic_search)
   \<and> content (byId (runAgenticSearch_finish (Response False (Inr (refused empty_agentic_search))) waiting) ''agenticSearchResult'')
     = Html (error_box ''Trial not found'')
   \<and> \<not> success (refused empty_analysis)
   \<and> content (byId (runMultiAgentAnalysis_finish (Response False (Inr (refused empty_analysis))) waiting) ''analysisResult'')
     = Html (error_box ''Trial not found'')
   \<and> \<not> success (refused empty_comparison)
   \<and> content (byId (runTrialComparison_finish (Response False (Inr (refused empty_comparison))) waiting) ''compareResult'')
     = Html (error_box ''Trial not found'')
   \<and> \<not> success (refused empty_amendment)
   \<and> content (byId (runAmendmentRisk_finish (Response False (Inr (refused empty_amendment))) waiting) ''amendmentResult'')
     = Html (error_box ''Trial not found'')
   \<and> \<not> success (refused empty_design_patterns)
   \<and> content (byId (runDesignPatterns_finish (Response False (Inr (refused empty_design_patterns))) waiting) ''patternResult'')
     = Html (error_box ''Trial not found'')
   \<and> \<not> success (refused empty_soa)
   \<and> content (byId (runSoAComposer_finish (Response False (Inr (refused empty_soa))) waiting) ''soaResult'')
     = Html (error_box ''Trial not found'')"
proof -
  have p: "\<not> has_class ''chat-placeholder'' (bubble i x ''user'')" for i x
    by (simp add: has_class_def bubble_def)
  have h: "error refused_chat = Some ''Trial not found''" "error refused_report = Some ''Trial not found''"
    by (simp_all add: refused_chat_def refused_report_def)
  from waiting_transcripts p h
    error_field_surfaces [where s = waiting and lid = "''msg-11''" and sid = "''sidebar-msg-11''"
      and now = 12 and e = "''Trial not found''" and ok = False
      and cd = refused_chat and pd = refused_report
      and ms = "[chat_placeholder ''A study'', bubble ''msg-10'' ''NCT002'' ''user'']"
      and sms = "[bubble ''sidebar-msg-10'' ''NCT002'' ''user'']"
      and ?d1.0 = "refused empty_agentic_search" and ?d2.0 = "refused empty_analysis" and ?d3.0 = "refused empty_comparison" and ?d4.0 = "refused empty_amendment" and ?d5.0 = "refused empty_design_patterns" and ?d6.0 = "refused empty_soa"]
  show ?thesis by (simp add: dec_small refused_def)
qed

text \<open>
  Claim C5 as stated fails for search. A body with the error \<open>Invalid date range\<close> in
  a response that is not \<open>ok\<close> gives the alert \<open>Error: Search failed\<close> and leaves the
  result list as it was; in a response that is \<open>ok\<close> it gives no alert at all and the
  success template of an empty result list.
\<close>

theorem search_error_body_not_shown:
  "error refused_search = Some ''Invalid date range''
   \<and> alerts (searchStudies_finish num (Response False (Inr refused_search)) page0)
       = [''Error: Search failed'']
   \<and> resultsContainer (searchStudies_finish num (Response False (Inr refused_search)) page0)
       = resultsContainer page0
   \<and> alerts (searchStudies_finish num (Response True (Inr refused_search)) page0) = []
   \<and> resultsContainer (searchStudies_finish num (Response True (Inr refused_search)) page0)
       = Inl ''<p>No studies found matching your criteria.</p>''"
  by (simp add: searchStudies_finish_def refused_search_def displayResults_def Let_def)
     (simp add: page0_def)

subsection \<open>The page cursor\<close>

text \<open>
  A bar that \<open>displayPagination\<close> renders for a cursor within bounds, clicked while the
  cursor and the page count are still the ones it was rendered for, requests a page
  within bounds.
\<close>

lemma fresh_bar_in_bounds:
  assumes "in_bounds s" and "b \<in> set (pagination (displayPagination s))" and "\<not> pdisabled b"
  shows "1 \<le> resolve (onclick b) s \<and> resolve (onclick b) s \<le> totalPages s"
  using assms
  by (auto simp: in_bounds_def displayPagination_def resolve_def Let_def split: if_splits)

text \<open>
  Claim C6 fails on the code. On the third of three pages the bar shows \<open>Previous\<close>
  enabled. \<open>clearFilters\<close> sets the cursor to 1 and leaves the bar as it is, so the
  button stays enabled; its handler reads the cursor when it is clicked and requests
  page 0, which becomes the cursor: below the bound 1.
\<close>

theorem stale_previous_button_leaves_bounds:
  "currentPage last_page = 3 \<and> totalPages last_page = 3
   \<and> currentPage (clearFilters last_page) = 1 \<and> totalPages (clearFilters last_page) = 3
   \<and> pagination (clearFilters last_page) = pagination last_page
   \<and> onclick (hd (pagination (clearFilters last_page))) = Prev
   \<and> \<not> pdisabled (hd (pagination (clearFilters last_page)))
   \<and> click (hd (pagination (clearFilters last_page))) (clearFilters last_page)
       = Some (searchStudies_begin (Some 0) (clearFilters last_page))
   \<and> currentPage (fst (searchStudies_begin (Some 0) (clearFilters last_page))) = 0"
proof -
  have c: "currentPage (clearFilters last_page) = 1" "totalPages (clearFilters last_page) = 3"
    "pagination (clearFilters last_page) = pagination last_page"
    by (simp_all add: clearFilters_def upd_def Let_def last_page_bar)
  show ?thesis
    by (simp add: c last_page_bar click_def resolve_def searchStudies_begin_def Let_def)
qed

subsection \<open>Opening the chat modal\<close>

text \<open>
  Claim C7. For every NCT id, \<open>openChatModal\<close> sets the header of the chat to the text
  \<open>Chat about <id>\<close>, records the id as the current chat study, and replaces whatever the
  transcript held by the fresh placeholder.
\<close>

theorem openChatModal_header_study_transcript:
  "content (byId (openChatModal nct ttl s) ''chatStudyTitle'') = Text (''Chat about '' @ nct)
   \<and> currentChatStudy (openChatModal nct ttl s) = Some nct
   \<and> chatMessages (openChatModal nct ttl s) = [chat_placeholder ttl]"
  by (simp add: openChatModal_def upd_def Let_def)

subsection \<open>Clearing the filters\<close>

text \<open>
  Claim C8. \<open>clearFilters\<close> always sets the page cursor to 1, clears the stored filter
  record, empties the results container and disables the input field and the send
  button of the sidebar chat.
\<close>

theorem clearFilters_resets:
  "currentPage (clearFilters s) = 1
   \<and> currentFilters (clearFilters s) = None
   \<and> resultsContainer (clearFilters s) = Inl ''''
   \<and> disabled (byId (clearFilters s) ''sidebarChatInput'')
   \<and> disabled (byId (clearFilters s) ''sidebarSendBtn'')"
  by (simp add: clearFilters_def upd_def Let_def)

subsection \<open>The guards of the two chat handlers\<close>

text \<open>
  Claim C9. When the trimmed chat input is empty, or no conversation is open
  (\<open>currentChatStudy\<close> is \<open>null\<close> for the modal, \<open>currentFilters\<close> is \<open>null\<close> for the sidebar),
  \<open>sendMessage\<close> and \<open>sendSidebarMessage\<close> return with no request issued and with the
  state, transcript included, as it was.
\<close>

theorem send_guard_no_request_no_change:
  "(trim (value_of (byId s ''chatInput'')) = [] \<or> currentChatStudy s = None
      \<longrightarrow> sendMessage_begin now1 now2 s = (s, None))
   \<and> (trim (value_of (byId s ''sidebarChatInput'')) = [] \<or> currentFilters s = None
      \<longrightarrow> sendSidebarMessage_begin now1 now2 s = (s, None))"
  by (auto simp: sendMessage_begin_def sendSidebarMessage_begin_def truthy_def Let_def)

text \<open>
  The theorem of C9 on the page before the first search: both inputs are empty and no
  conversation is open.
\<close>

theorem send_guard_no_request_no_change_witness:
  "trim (value_of (byId page0 ''chatInput'')) = []
   \<and> currentChatStudy page0 = None
   \<and> sendMessage_begin 7 7 page0 = (page0, None)
   \<and> trim (value_of (byId page0 ''sidebarChatInput'')) = []
   \<and> currentFilters page0 = None
   \<and> sendSidebarMessage_begin 7 7 page0 = (page0, None)"
proof -
  have h1: "trim (value_of (byId page0 ''chatInput'')) = []"
    and h2: "trim (value_of (byId page0 ''sidebarChatInput'')) = []"
    and h3: "currentChatStudy page0 = None" and h4: "currentFilters page0 = None"
    by (simp_all add: page0_def blank_def value_of_def)
  from send_guard_no_request_no_change [of page0 7 7] h1 h2 h3 h4 show ?thesis by simp
qed

subsection \<open>The intervention filter\<close>

text \<open>
  Claim C10. For every text of the intervention field, \<open>getFilters\<close> yields the trimmed
  text split on commas, each token trimmed and the empty tokens dropped. A text of white
  space only yields the empty list, and no entry of the result is empty or begins or
  ends with white space.
\<close>

theorem getFilters_intervention:
  "intervention (getFilters s) = intervention_spec (value_of (byId s ''intervention''))
   \<and> (list_all is_space (value_of (byId s ''intervention'')) \<longrightarrow> intervention (getFilters s) = [])
   \<and> (\<forall>t \<in> set (intervention (getFilters s)).
         t \<noteq> [] \<and> \<not> is_space (hd t) \<and> \<not> is_space (last t))"
proof -
  let ?txt = "value_of (byId s ''intervention'')"
  have a: "intervention (getFilters s) = intervention_spec ?txt"
    by (simp add: getFilters_def intervention_spec_def Let_def)
  have b: "intervention_spec ?txt = []" if "list_all is_space ?txt"
    using trim_all_space [OF that] by (simp add: intervention_spec_def)
  have c: "t \<noteq> [] \<and> \<not> is_space (hd t) \<and> \<not> is_space (last t)"
    if "t \<in> set (intervention_spec ?txt)" for t
    using that trim_nonempty_ends by (auto simp: intervention_spec_def)
  show ?thesis using a b c by simp
qed

text \<open>
  The theorem of C10 on two texts: one with padded and empty tokens, one of white
  space only.
\<close>

theorem getFilters_intervention_witness:
  "intervention (getFilters (upd ''intervention'' (\<lambda>e. text_input ''  aspirin , ,ibuprofen,  '') page0))
     = [''aspirin'', ''ibuprofen'']
   \<and> list_all is_space ''   ''
   \<and> intervention (getFilters (upd ''intervention'' (\<lambda>e. text_input ''   '') page0)) = []"
  using getFilters_intervention [of "upd ''intervention'' (\<lambda>e. text_input ''  aspirin , ,ibuprofen,  '') page0"]
    getFilters_intervention [of "upd ''intervention'' (\<lambda>e. text_input ''   '') page0"]
  by (simp add: intervention_spec_def upd_def page0_def text_input_def blank_def value_of_def
      trim_def is_space_def)

end
